theory Spec2Isabelle
  imports Main
begin

section \<open>auth/token\_manager.py: the credential store\<close>

text \<open>
  \<open>TokenManager\<close> keeps a dictionary \<open>tokens\<close> from user id to an entry
  \<open>{'data': auth_data, 'stored_at': int(time.time())}\<close> and mirrors it into the
  encrypted file \<open>tokens.enc\<close>. An entry read back from the file is any JSON object, so
  both keys are optional in the model and \<open>other_keys\<close> says whether the object has
  further keys; Python treats the entry as false exactly when the dictionary is empty. The
  bundle type \<open>'a\<close> is opaque.
\<close>

type_synonym user_id = string

record 'a token_entry =
  data :: "'a option"
  stored_at :: "int option"
  other_keys :: bool

definition truthy_entry :: "'a token_entry \<Rightarrow> bool" where
  "truthy_entry e = (data e \<noteq> None \<or> stored_at e \<noteq> None \<or> other_keys e)"

text \<open>
  What \<open>tokens.enc\<close> holds, as seen through this manager's cipher: no file, a file that
  cannot be opened or read, bytes that \<open>cipher.decrypt\<close> or \<open>json.loads\<close> rejects, or
  a serialised mapping from user ids to entries, which is what \<open>save_tokens\<close> writes. A
  file that decrypts to JSON of another shape is not covered.
\<close>

datatype 'a tokens_file_state =
    FileMissing
  | FileUnreadable
  | FileUndecryptable
  | FileHolds "user_id \<rightharpoonup> 'a token_entry"

record 'a TokenManager =
  tokens :: "user_id \<rightharpoonup> 'a token_entry"
  tokens_file :: "'a tokens_file_state"

datatype tm_error = MakedirsError | EncryptionSetupError

text \<open>
  \<open>setup_encryption\<close>: a key that does not end in \<open>=\<close> is taken as a password and a
  Fernet key is derived from it, which \<open>Fernet\<close> always accepts; any other key is handed
  to \<open>Fernet\<close> as it is, and \<open>Fernet\<close> raises unless it is a well-formed key
  (\<open>fernet_accepts\<close>). The exception is re-raised.
\<close>

definition endswith_eq :: "string \<Rightarrow> bool" where
  "endswith_eq key = (key \<noteq> [] \<and> last key = CHR ''='')"

definition setup_encryption :: "(string \<Rightarrow> bool) \<Rightarrow> string \<Rightarrow> tm_error + unit" where
  "setup_encryption fernet_accepts key =
     (if \<not> endswith_eq key then Inr ()
      else if fernet_accepts key then Inr () else Inl EncryptionSetupError)"

definition load_tokens :: "'a TokenManager \<Rightarrow> 'a TokenManager" where
  "load_tokens tm =
     (case tokens_file tm of
        FileMissing \<Rightarrow> tm
      | FileHolds m \<Rightarrow> tm\<lparr>tokens := m\<rparr>
      | FileUnreadable \<Rightarrow> tm\<lparr>tokens := Map.empty\<rparr>
      | FileUndecryptable \<Rightarrow> tm\<lparr>tokens := Map.empty\<rparr>)"

text \<open>
  \<open>__init__(storage_dir, encryption_key)\<close>: \<open>os.makedirs\<close> may raise; a missing key is
  taken from the environment (\<open>env_key\<close>) and, when that is empty too, generated
  (\<open>generated_key\<close>); then encryption is set up, \<open>tokens\<close> is set to \<open>{}\<close> and
  \<open>load_tokens\<close> runs.
\<close>

definition TokenManager_init ::
  "bool \<Rightarrow> (string \<Rightarrow> bool) \<Rightarrow> string option \<Rightarrow> string \<Rightarrow> string \<Rightarrow>
   'a tokens_file_state \<Rightarrow> tm_error + 'a TokenManager" where
  "TokenManager_init makedirs_ok fernet_accepts encryption_key env_key generated_key file =
     (if \<not> makedirs_ok then Inl MakedirsError
      else
        let key = (case encryption_key of
                     Some k \<Rightarrow> k
                   | None \<Rightarrow> if env_key = [] then generated_key else env_key)
        in case setup_encryption fernet_accepts key of
             Inl e \<Rightarrow> Inl e
           | Inr _ \<Rightarrow> Inr (load_tokens \<lparr>tokens = Map.empty, tokens_file = file\<rparr>))"

text \<open>
  \<open>save_tokens\<close> rewrites the whole file and returns \<open>True\<close>, or logs the exception and
  returns \<open>False\<close>; \<open>write_ok\<close> says which. A failed write is modelled as leaving the
  file as it was.
\<close>

definition save_tokens :: "bool \<Rightarrow> 'a TokenManager \<Rightarrow> bool \<times> 'a TokenManager" where
  "save_tokens write_ok tm =
     (if write_ok then (True, tm\<lparr>tokens_file := FileHolds (tokens tm)\<rparr>) else (False, tm))"

definition store_user_tokens ::
  "int \<Rightarrow> bool \<Rightarrow> user_id \<Rightarrow> 'a \<Rightarrow> 'a TokenManager \<Rightarrow> bool \<times> 'a TokenManager" where
  "store_user_tokens now write_ok u auth_data tm =
     save_tokens write_ok
       (tm\<lparr>tokens := (tokens tm)(u \<mapsto> \<lparr>data = Some auth_data, stored_at = Some now, other_keys = False\<rparr>)\<rparr>)"

definition get_user_tokens :: "'a TokenManager \<Rightarrow> user_id \<Rightarrow> 'a option" where
  "get_user_tokens tm u =
     (case tokens tm u of
        None \<Rightarrow> None
      | Some user_data \<Rightarrow> if \<not> truthy_entry user_data then None else data user_data)"

definition is_token_valid :: "int \<Rightarrow> 'a TokenManager \<Rightarrow> user_id \<Rightarrow> int \<Rightarrow> bool" where
  "is_token_valid current_time tm u max_age =
     (case tokens tm u of
        None \<Rightarrow> False
      | Some user_data \<Rightarrow>
          if \<not> truthy_entry user_data then False
          else current_time - (case stored_at user_data of None \<Rightarrow> 0 | Some t \<Rightarrow> t) < max_age)"

definition delete_user_tokens :: "bool \<Rightarrow> user_id \<Rightarrow> 'a TokenManager \<Rightarrow> bool \<times> 'a TokenManager" where
  "delete_user_tokens write_ok u tm =
     (if u \<in> dom (tokens tm)
      then save_tokens write_ok (tm\<lparr>tokens := (tokens tm)(u := None)\<rparr>)
      else (False, tm))"

section \<open>api/websocket\_client.py: the WebSocket transport\<close>

text \<open>
  Clock readings (\<open>time.time()\<close>) are integers counted in milliseconds; timeouts are in
  the same unit. A callback is an opaque function of the caller: the model records whether
  one is registered and logs every call made to it, with the request id it was registered
  for and the text it received.
\<close>

datatype ConnectionState =
    DISCONNECTED | CONNECTING | CONNECTED | HANDSHAKING
  | NO_CONNECTION | BACKING_OFF | ERROR | CLOSED

record pending_request =
  content :: string
  complete :: bool
  created_at :: int
  updated_at :: int

record handler_entry =
  on_update :: bool
  on_complete :: bool

datatype callback_event = OnUpdate string string | OnComplete string string

text \<open>
  The part of \<open>auth_data\<close> that the client reads: the top-level keys \<open>client_id\<close> and
  \<open>session_id\<close>, the dictionary \<open>websocket_params\<close>, and the captured connections under
  \<open>network_data\<close>, each of them the parsed JSON object of its \<open>data\<close> string, or
  \<open>None\<close> when that string is missing, does not start with a brace or does not parse.
\<close>

record connection_params =
  clientId :: "string option"
  sessionId :: "string option"
  tokenCluster :: "string option"

record ws_auth_data =
  auth_client_id :: "string option"
  auth_session_id :: "string option"
  websocket_params :: "connection_params option"
  websocket_connections :: "connection_params option list option"

record ReplitWebSocketClient =
  auth_data :: ws_auth_data
  ws :: bool
  state :: ConnectionState
  responses :: "string \<rightharpoonup> pending_request"
  handlers :: "string \<rightharpoonup> handler_entry"
  client_id :: string
  session_id :: string
  token_cluster :: string
  task :: bool
  backoff_time :: int
  max_backoff_time :: int
  reconnect_attempts :: nat
  max_reconnect_attempts :: nat
  slept :: "int list"
  calls :: "callback_event list"

text \<open>
  \<open>slept\<close> and \<open>calls\<close> are the observable effects: the delays handed to
  \<open>asyncio.sleep\<close> by \<open>reconnect\<close>, and the callback calls, both in order.
\<close>

definition ReplitWebSocketClient_init :: "ws_auth_data \<Rightarrow> ReplitWebSocketClient" where
  "ReplitWebSocketClient_init a =
     \<lparr>auth_data = a, ws = False, state = DISCONNECTED,
      responses = Map.empty, handlers = Map.empty,
      client_id = (case auth_client_id a of None \<Rightarrow> [] | Some c \<Rightarrow> c),
      session_id = (case auth_session_id a of None \<Rightarrow> [] | Some c \<Rightarrow> c),
      token_cluster = ''picard'', task = False,
      backoff_time = 1, max_backoff_time = 30,
      reconnect_attempts = 0, max_reconnect_attempts = 5,
      slept = [], calls = []\<rparr>"

definition apply_params :: "connection_params \<Rightarrow> ReplitWebSocketClient \<Rightarrow> ReplitWebSocketClient" where
  "apply_params p c =
     (let c1 = (case clientId p of None \<Rightarrow> c | Some v \<Rightarrow> c\<lparr>client_id := v\<rparr>);
          c2 = (case sessionId p of None \<Rightarrow> c1 | Some v \<Rightarrow> c1\<lparr>session_id := v\<rparr>)
      in (case tokenCluster p of None \<Rightarrow> c2 | Some v \<Rightarrow> c2\<lparr>token_cluster := v\<rparr>))"

fun apply_connections ::
  "connection_params option list \<Rightarrow> ReplitWebSocketClient \<Rightarrow> ReplitWebSocketClient" where
  "apply_connections [] c = c"
| "apply_connections (None # ps) c = apply_connections ps c"
| "apply_connections (Some p # ps) c = apply_connections ps (apply_params p c)"

definition extract_connection_params :: "ReplitWebSocketClient \<Rightarrow> bool \<times> ReplitWebSocketClient" where
  "extract_connection_params c =
     (let c1 = (case websocket_params (auth_data c) of None \<Rightarrow> c | Some p \<Rightarrow> apply_params p c);
          c2 = (case websocket_connections (auth_data c) of
                  None \<Rightarrow> c1 | Some ps \<Rightarrow> apply_connections ps c1)
      in (client_id c2 \<noteq> [] \<and> session_id c2 \<noteq> [], c2))"

text \<open>
  \<open>connect\<close>. The socket either opens and takes the handshake, or
  \<open>websockets.connect\<close> raises, or the handshake \<open>ws.send\<close> raises on the socket
  just opened; the handler of both exceptions sets \<open>NO_CONNECTION\<close>.
\<close>

datatype socket_outcome = SocketOK | ConnectRaises | HandshakeRaises

definition connect :: "socket_outcome \<Rightarrow> ReplitWebSocketClient \<Rightarrow> bool \<times> ReplitWebSocketClient" where
  "connect socket c =
     (if state c = CONNECTING \<or> state c = CONNECTED then (True, c)
      else
        let c1 = c\<lparr>state := CONNECTING\<rparr>;
            (have_params, c2) =
               (if client_id c1 = [] \<or> session_id c1 = [] then extract_connection_params c1
                else (True, c1))
        in if \<not> have_params then (False, c2\<lparr>state := ERROR\<rparr>)
           else (case socket of
                   SocketOK \<Rightarrow>
                     (True, c2\<lparr>ws := True, state := CONNECTED, reconnect_attempts := 0,
                               task := True\<rparr>)
                 | ConnectRaises \<Rightarrow> (False, c2\<lparr>state := NO_CONNECTION\<rparr>)
                 | HandshakeRaises \<Rightarrow> (False, c2\<lparr>ws := True, state := NO_CONNECTION\<rparr>)))"

definition reconnect :: "socket_outcome \<Rightarrow> ReplitWebSocketClient \<Rightarrow> bool \<times> ReplitWebSocketClient" where
  "reconnect socket c =
     (if reconnect_attempts c \<ge> max_reconnect_attempts c then (False, c\<lparr>state := ERROR\<rparr>)
      else
        let c1 = c\<lparr>reconnect_attempts := reconnect_attempts c + 1, state := BACKING_OFF\<rparr>;
            backoff = min (backoff_time c1 * 2 ^ (reconnect_attempts c1 - 1)) (max_backoff_time c1)
        in connect socket (c1\<lparr>slept := slept c1 @ [backoff]\<rparr>))"

text \<open>
  Inbound frames, after \<open>json.loads\<close>: \<open>data.get('id', '')\<close> and
  \<open>data.get('content', '')\<close> are the two strings of an \<open>agentResponse\<close>; a frame that is
  not JSON is logged and skipped like one of an unknown type.
\<close>

datatype ws_message =
    AgentResponse string string
  | AgentResponseComplete string
  | StateTransition
  | OtherType
  | NotJSON

definition has_on_update :: "ReplitWebSocketClient \<Rightarrow> string \<Rightarrow> bool" where
  "has_on_update c message_id =
     (case handlers c message_id of None \<Rightarrow> False | Some h \<Rightarrow> on_update h)"

definition has_on_complete :: "ReplitWebSocketClient \<Rightarrow> string \<Rightarrow> bool" where
  "has_on_complete c message_id =
     (case handlers c message_id of None \<Rightarrow> False | Some h \<Rightarrow> on_complete h)"

fun process_message :: "int \<Rightarrow> ws_message \<Rightarrow> ReplitWebSocketClient \<Rightarrow> ReplitWebSocketClient" where
  "process_message now (AgentResponse message_id chunk) c =
     (case responses c message_id of
        None \<Rightarrow> c
      | Some r \<Rightarrow>
          let c1 = c\<lparr>responses := (responses c)(message_id \<mapsto>
                        r\<lparr>content := content r @ chunk, updated_at := now\<rparr>)\<rparr>
          in if has_on_update c1 message_id
             then c1\<lparr>calls := calls c1 @ [OnUpdate message_id chunk]\<rparr> else c1)"
| "process_message now (AgentResponseComplete message_id) c =
     (case responses c message_id of
        None \<Rightarrow> c
      | Some r \<Rightarrow>
          let c1 = c\<lparr>responses := (responses c)(message_id \<mapsto> r\<lparr>complete := True\<rparr>)\<rparr>
          in if has_on_complete c1 message_id
             then c1\<lparr>calls := calls c1 @ [OnComplete message_id (content r)]\<rparr> else c1)"
| "process_message now StateTransition c = c"
| "process_message now OtherType c = c"
| "process_message now NotJSON c = c"

text \<open>The body of the \<open>async for\<close> loop of \<open>_process_messages\<close>, over the frames received.\<close>

fun process_messages :: "(int \<times> ws_message) list \<Rightarrow> ReplitWebSocketClient \<Rightarrow> ReplitWebSocketClient" where
  "process_messages [] c = c"
| "process_messages ((now, m) # ms) c = process_messages ms (process_message now m c)"

text \<open>
  How the frame iterator ends: it is exhausted without an exception, it raises
  \<open>ConnectionClosed\<close>, or another exception escapes the loop. Then the task is done:
  the \<open>connect\<close> that \<open>reconnect\<close> makes from inside the task finds it still
  running and starts no new one, so \<open>task\<close>, which says that a listener task is running,
  is false afterwards.
\<close>

datatype stream_end = Exhausted | ConnectionClosed | OtherException

definition listener ::
  "(int \<times> ws_message) list \<Rightarrow> stream_end \<Rightarrow> socket_outcome \<Rightarrow> ReplitWebSocketClient \<Rightarrow>
   ReplitWebSocketClient" where
  "listener ms e socket c =
     (let c1 = process_messages ms c;
          c2 = (case e of
                  Exhausted \<Rightarrow> c1
                | ConnectionClosed \<Rightarrow> snd (reconnect socket (c1\<lparr>state := NO_CONNECTION\<rparr>))
                | OtherException \<Rightarrow> c1\<lparr>state := ERROR\<rparr>)
      in c2\<lparr>task := False\<rparr>)"

text \<open>Python's \<open>str\<close> of an integer, for the generated message id.\<close>

definition digit_char :: "nat \<Rightarrow> char" where
  "digit_char d = ''0123456789'' ! d"

function str_nat :: "nat \<Rightarrow> string" where
  "str_nat n = (if n < 10 then [digit_char n] else str_nat (n div 10) @ [digit_char (n mod 10)])"
  by pat_completeness auto
termination
  by (relation "measure id") auto

definition str_int :: "int \<Rightarrow> string" where
  "str_int i = (if i < 0 then CHR ''-'' # str_nat (nat (- i)) else str_nat (nat i))"

text \<open>
  \<open>f"msg_{int(time.time() * 1000)}_{hash(text) % 10000}"\<close>: \<open>now\<close> is the clock in
  milliseconds and \<open>hash_of\<close> is Python's string hash of this process.
\<close>

definition generate_message_id :: "int \<Rightarrow> (string \<Rightarrow> int) \<Rightarrow> string \<Rightarrow> string" where
  "generate_message_id now hash_of text =
     ''msg_'' @ str_int now @ ''_'' @ str_int (hash_of text mod 10000)"

text \<open>
  \<open>send_message(text, message_id, on_update, on_complete)\<close>. The request is registered
  before the connection is checked; \<open>send_ok\<close> says whether the final \<open>ws.send\<close> returns.
  A client that \<open>connect\<close> found \<open>CONNECTING\<close> may have no socket yet, and then the
  send raises too. The result is the message id, or \<open>None\<close>.
\<close>

definition ws_send_message ::
  "int \<Rightarrow> (string \<Rightarrow> int) \<Rightarrow> socket_outcome \<Rightarrow> bool \<Rightarrow> string \<Rightarrow> string option \<Rightarrow> bool \<Rightarrow> bool \<Rightarrow>
   ReplitWebSocketClient \<Rightarrow> string option \<times> ReplitWebSocketClient" where
  "ws_send_message now hash_of socket send_ok text message_id upd compl c =
     (let mid = (case message_id of None \<Rightarrow> generate_message_id now hash_of text | Some m \<Rightarrow> m);
          c1 = c\<lparr>responses := (responses c)(mid \<mapsto>
                 \<lparr>content = [], complete = False, created_at = now, updated_at = now\<rparr>)\<rparr>;
          c2 = (if upd \<or> compl
                then c1\<lparr>handlers := (handlers c1)(mid \<mapsto> \<lparr>on_update = upd, on_complete = compl\<rparr>)\<rparr>
                else c1);
          (successful, c3) = (if state c2 \<noteq> CONNECTED then connect socket c2 else (True, c2))
      in if \<not> successful then (None, c3)
         else if ws c3 \<and> send_ok then (Some mid, c3) else (None, c3))"

text \<open>
  \<open>wait_for_response(message_id, timeout)\<close> polls every 0.1 s. Each element of
  \<open>polls\<close> is one turn of the loop: the clock reading at the timeout test, and what the
  listener task does during the following sleep, that is the frames it handles and, when
  the stream ends there, how it ends and whether the reconnection gets a socket; without a
  running listener task nothing is handled. The loop may never end, so the result says
  whether it returned within the given turns. No code of the client removes an entry of
  \<open>responses\<close>, so the lookup in the loop condition always finds one. The clock is
  exact, where the code compares floating-point readings.
\<close>

datatype wait_result = Returned "string option" | StillWaiting

type_synonym poll = "int \<times> (int \<times> ws_message) list \<times> (stream_end \<times> socket_outcome) option"

definition during_sleep ::
  "(int \<times> ws_message) list \<Rightarrow> (stream_end \<times> socket_outcome) option \<Rightarrow>
   ReplitWebSocketClient \<Rightarrow> ReplitWebSocketClient" where
  "during_sleep frames ending c =
     (if \<not> task c then c
      else (case ending of
              None \<Rightarrow> process_messages frames c
            | Some (e, socket) \<Rightarrow> listener frames e socket c))"

fun wait_loop ::
  "string \<Rightarrow> int \<Rightarrow> int \<Rightarrow> poll list \<Rightarrow> ReplitWebSocketClient \<Rightarrow>
   wait_result \<times> ReplitWebSocketClient" where
  "wait_loop message_id timeout start_time polls c =
     (case responses c message_id of
        None \<Rightarrow> (Returned None, c)
      | Some r \<Rightarrow>
          if complete r then (Returned (Some (content r)), c)
          else (case polls of
                  [] \<Rightarrow> (StillWaiting, c)
                | (now, frames, ending) # rest \<Rightarrow>
                    if now - start_time > timeout then (Returned None, c)
                    else if state c = ERROR \<or> state c = CLOSED then (Returned None, c)
                    else wait_loop message_id timeout start_time rest
                           (during_sleep frames ending c)))"

definition ws_wait_for_response ::
  "string \<Rightarrow> int \<Rightarrow> int \<Rightarrow> poll list \<Rightarrow> ReplitWebSocketClient \<Rightarrow>
   wait_result \<times> ReplitWebSocketClient" where
  "ws_wait_for_response message_id timeout start_time polls c =
     (if message_id \<notin> dom (responses c) then (Returned None, c)
      else wait_loop message_id timeout start_time polls c)"

section \<open>api/direct\_api\_client.py: the direct transport\<close>

text \<open>
  \<open>message_callbacks\<close> maps a message id to the caller's two callbacks and a timestamp.
  \<open>wait_for_response\<close> replaces \<open>on_complete\<close> by a wrapper that calls the caller's
  callback, if any, and then resolves a future; \<open>awaited\<close> says that the wrapper is
  installed and \<open>resolved\<close> holds the value of the future of each id. Callbacks are taken
  to return normally.
\<close>

record callbacks_entry =
  cb_on_update :: bool
  cb_on_complete :: bool
  awaited :: bool
  timestamp :: int

record ReplitDirectAPIClient =
  d_ws :: bool
  initialized :: bool
  message_callbacks :: "string \<rightharpoonup> callbacks_entry"
  connection_established :: bool
  resolved :: "string \<rightharpoonup> string"
  d_calls :: "callback_event list"


text \<open>
  Inbound frames: \<open>data.get('messageId')\<close> is the first string, empty when the key is
  missing or null, and \<open>data.get('content', '')\<close> the second.
\<close>

datatype direct_message =
    ConnectionEstablished
  | AgentStream string string
  | AgentResponseFinal string string
  | DirectOther
  | DirectNotJSON

fun d_process_message :: "direct_message \<Rightarrow> ReplitDirectAPIClient \<Rightarrow> ReplitDirectAPIClient" where
  "d_process_message ConnectionEstablished c = c\<lparr>connection_established := True\<rparr>"
| "d_process_message (AgentStream message_id chunk) c =
     (case (if message_id = [] then None else message_callbacks c message_id) of
        None \<Rightarrow> c
      | Some cb \<Rightarrow>
          if cb_on_update cb then c\<lparr>d_calls := d_calls c @ [OnUpdate message_id chunk]\<rparr> else c)"
| "d_process_message (AgentResponseFinal message_id text) c =
     (case (if message_id = [] then None else message_callbacks c message_id) of
        None \<Rightarrow> c
      | Some cb \<Rightarrow>
          if cb_on_complete cb \<or> awaited cb
          then
            let c1 = (if cb_on_complete cb
                      then c\<lparr>d_calls := d_calls c @ [OnComplete message_id text]\<rparr> else c);
                c2 = (if awaited cb
                      then c1\<lparr>resolved := (resolved c1)(message_id \<mapsto> text)\<rparr> else c1)
            in c2\<lparr>message_callbacks := (message_callbacks c2)(message_id := None)\<rparr>
          else c)"
| "d_process_message DirectOther c = c"
| "d_process_message DirectNotJSON c = c"

fun d_process_messages :: "direct_message list \<Rightarrow> ReplitDirectAPIClient \<Rightarrow> ReplitDirectAPIClient" where
  "d_process_messages [] c = c"
| "d_process_messages (m # ms) c = d_process_messages ms (d_process_message m c)"

text \<open>The whole listener task: when the frame iterator ends, the \<open>finally\<close> clause runs.\<close>

definition d_listener :: "direct_message list \<Rightarrow> ReplitDirectAPIClient \<Rightarrow> ReplitDirectAPIClient" where
  "d_listener ms c = (d_process_messages ms c)\<lparr>initialized := False, connection_established := False\<rparr>"

datatype 'r outcome = Returns 'r | Raises string


text \<open>
  \<open>wait_for_response(message_id, timeout)\<close>: \<open>frames\<close> are the frames the listener
  handles until \<open>asyncio.wait_for\<close> returns or its deadline passes; the call times out
  when they leave the future unresolved. The \<open>finally\<close> clause removes the registration
  on every path.
\<close>

definition d_wait_for_response ::
  "string \<Rightarrow> direct_message list \<Rightarrow> ReplitDirectAPIClient \<Rightarrow> string option \<times> ReplitDirectAPIClient" where
  "d_wait_for_response message_id frames c =
     (case message_callbacks c message_id of
        None \<Rightarrow> (None, c)
      | Some cb \<Rightarrow>
          let c1 = c\<lparr>message_callbacks := (message_callbacks c)(message_id \<mapsto> cb\<lparr>awaited := True\<rparr>),
                     resolved := (resolved c)(message_id := None)\<rparr>;
              c2 = d_process_messages frames c1
          in (resolved c2 message_id,
              c2\<lparr>message_callbacks := (message_callbacks c2)(message_id := None)\<rparr>))"

section \<open>router/hybrid\_router.py: the fallback router\<close>

datatype RouterMethod = DIRECT_API | WEBSOCKET_API | BROWSER_AUTOMATION | AUTO

text \<open>
  The three client fields hold an object or \<open>None\<close>; the router only tests them, so the
  model keeps whether each is set. Counters are Python integers. \<open>router_auth_data\<close> is
  the field \<open>auth_data\<close>, \<open>None\<close> standing for \<open>None\<close> and for the empty dictionary.
\<close>

record 'a HybridRouter =
  user_id :: user_id
  token_manager :: "'a TokenManager"
  method' :: RouterMethod
  ws_client :: bool
  direct_client :: bool
  browser_client :: bool
  last_method_used :: "RouterMethod option"
  direct_api_failures :: int
  max_direct_api_failures :: int
  websocket_failures :: int
  max_websocket_failures :: int
  browser_failures :: int
  max_browser_failures :: int
  successful_api_calls :: int
  total_api_calls :: int
  router_auth_data :: "'a option"

definition HybridRouter_init :: "user_id \<Rightarrow> 'a TokenManager \<Rightarrow> RouterMethod \<Rightarrow> 'a HybridRouter" where
  "HybridRouter_init uid tm m =
     \<lparr>user_id = uid, token_manager = tm, method' = m,
      ws_client = False, direct_client = False, browser_client = False,
      last_method_used = None,
      direct_api_failures = 0, max_direct_api_failures = 3,
      websocket_failures = 0, max_websocket_failures = 3,
      browser_failures = 0, max_browser_failures = 3,
      successful_api_calls = 0, total_api_calls = 0,
      router_auth_data = get_user_tokens tm uid\<rparr>"

text \<open>
  What the three clients and the outside world do during one \<open>send_message\<close> call. Each
  client method is called at most once in the straight-line body, so one outcome per method
  is enough: it returns a value or raises. \<open>browser_initialized\<close> is the attribute
  \<open>initialized\<close> of the browser client held at the start of the call.
\<close>

record 'a call_env =
  clock :: int
  write_ok :: bool
  direct_connect :: "bool outcome"
  direct_send :: "string option outcome"
  direct_wait :: "string option outcome"
  ws_is_connected :: bool
  ws_close :: "unit outcome"
  ws_connect :: "bool outcome"
  ws_send :: "string option outcome"
  ws_wait :: "string option outcome"
  browser_initialized :: bool
  browser_construct :: "unit outcome"
  browser_start :: "bool outcome"
  browser_extract_on_start :: "'a option outcome"
  browser_send :: "string option outcome"
  browser_extract :: "'a option outcome"

text \<open>Python truth of an optional string: neither \<open>None\<close> nor empty.\<close>

definition truthy :: "string option \<Rightarrow> bool" where
  "truthy x = (case x of None \<Rightarrow> False | Some t \<Rightarrow> t \<noteq> [])"

fun contains :: "string \<Rightarrow> string \<Rightarrow> bool" where
  "contains sub [] = (sub = [])"
| "contains sub (x # xs) = (take (length sub) (x # xs) = sub \<or> contains sub xs)"

definition store_auth :: "'a call_env \<Rightarrow> 'a \<Rightarrow> 'a HybridRouter \<Rightarrow> 'a HybridRouter" where
  "store_auth env a r =
     r\<lparr>router_auth_data := Some a,
       token_manager := snd (store_user_tokens (clock env) (write_ok env) (user_id r) a
                               (token_manager r))\<rparr>"

definition init_direct_api :: "'a call_env \<Rightarrow> 'a HybridRouter \<Rightarrow> bool \<times> 'a HybridRouter" where
  "init_direct_api env r =
     (if direct_client r then (True, r)
      else (case direct_connect env of
              Returns True \<Rightarrow> (True, r\<lparr>direct_client := True\<rparr>)
            | Returns False \<Rightarrow>
                (False, r\<lparr>direct_api_failures := direct_api_failures r + 1, direct_client := False\<rparr>)
            | Raises e \<Rightarrow>
                (False, r\<lparr>direct_api_failures := direct_api_failures r + 1, direct_client := False\<rparr>)))"

definition init_websocket_api :: "'a call_env \<Rightarrow> 'a HybridRouter \<Rightarrow> bool \<times> 'a HybridRouter" where
  "init_websocket_api env r =
     (let failed = (False, r\<lparr>websocket_failures := websocket_failures r + 1, ws_client := False\<rparr>);
          fresh = (case ws_connect env of
                     Returns True \<Rightarrow> (True, r\<lparr>ws_client := True\<rparr>)
                   | Returns False \<Rightarrow> failed
                   | Raises e \<Rightarrow> failed)
      in if ws_client r
         then (if ws_is_connected env then (True, r)
               else (case ws_close env of Returns u \<Rightarrow> fresh | Raises e \<Rightarrow> failed))
         else fresh)"

definition init_browser :: "'a call_env \<Rightarrow> 'a HybridRouter \<Rightarrow> bool \<times> 'a HybridRouter" where
  "init_browser env r =
     (if browser_client r \<and> browser_initialized env then (True, r)
      else (case browser_construct env of
              Raises e \<Rightarrow> (False, r\<lparr>browser_failures := browser_failures r + 1\<rparr>)
            | Returns u \<Rightarrow>
                let r1 = r\<lparr>browser_client := True\<rparr>;
                    failed = (False, r1\<lparr>browser_failures := browser_failures r1 + 1\<rparr>)
                in (case browser_start env of
                      Raises e \<Rightarrow> failed
                    | Returns False \<Rightarrow> failed
                    | Returns True \<Rightarrow>
                        (case browser_extract_on_start env of
                           Raises e \<Rightarrow> failed
                         | Returns None \<Rightarrow> (True, r1)
                         | Returns (Some a) \<Rightarrow> (True, store_auth env a r1)))))"

definition determine_method :: "'a HybridRouter \<Rightarrow> RouterMethod \<times> 'a HybridRouter" where
  "determine_method r =
     (if method' r \<noteq> AUTO then (method' r, r)
      else if direct_client r \<and> successful_api_calls r > 0
              \<and> direct_api_failures r < max_direct_api_failures r then (DIRECT_API, r)
      else if ws_client r \<and> successful_api_calls r > 0
              \<and> websocket_failures r < max_websocket_failures r then (WEBSOCKET_API, r)
      else if direct_api_failures r < max_direct_api_failures r then (DIRECT_API, r)
      else if websocket_failures r < max_websocket_failures r then (WEBSOCKET_API, r)
      else if browser_failures r < max_browser_failures r then (BROWSER_AUTOMATION, r)
      else (DIRECT_API,
            r\<lparr>direct_api_failures := 0, websocket_failures := 0, browser_failures := 0\<rparr>))"

text \<open>
  The \<open>try\<close> block of the direct strategy, entered once the client is initialised: the
  response when there is one, \<open>None\<close> when control falls through to the escalation.
\<close>

definition try_direct :: "'a call_env \<Rightarrow> 'a HybridRouter \<Rightarrow> string option \<times> 'a HybridRouter" where
  "try_direct env r =
     (case direct_send env of
        Raises e \<Rightarrow> (None, r\<lparr>direct_api_failures := direct_api_failures r + 1\<rparr>)
      | Returns message_id \<Rightarrow>
          if truthy message_id
          then (case direct_wait env of
                  Raises e \<Rightarrow> (None, r\<lparr>direct_api_failures := direct_api_failures r + 1\<rparr>)
                | Returns response \<Rightarrow>
                    if truthy response
                    then (response, r\<lparr>direct_api_failures := 0,
                                      successful_api_calls := successful_api_calls r + 1\<rparr>)
                    else (None, r))
          else (None, r))"

definition try_websocket :: "'a call_env \<Rightarrow> 'a HybridRouter \<Rightarrow> string option \<times> 'a HybridRouter" where
  "try_websocket env r =
     (case ws_send env of
        Raises e \<Rightarrow> (None, r\<lparr>websocket_failures := websocket_failures r + 1\<rparr>)
      | Returns message_id \<Rightarrow>
          if truthy message_id
          then (case ws_wait env of
                  Raises e \<Rightarrow> (None, r\<lparr>websocket_failures := websocket_failures r + 1\<rparr>)
                | Returns response \<Rightarrow>
                    if truthy response
                    then (response, r\<lparr>websocket_failures := 0,
                                      successful_api_calls := successful_api_calls r + 1\<rparr>)
                    else (None, r))
          else (None, r))"

definition direct_block :: "'a call_env \<Rightarrow> 'a HybridRouter \<Rightarrow> string option \<times> 'a HybridRouter" where
  "direct_block env r =
     (let (initialized, r1) = init_direct_api env r;
          (response, r2) = (if initialized then try_direct env r1 else (None, r1))
      in case response of
           Some t \<Rightarrow> (Some t, r2)
         | None \<Rightarrow> (None, r2\<lparr>last_method_used := Some WEBSOCKET_API\<rparr>))"

definition websocket_block :: "'a call_env \<Rightarrow> 'a HybridRouter \<Rightarrow> string option \<times> 'a HybridRouter" where
  "websocket_block env r =
     (let (initialized, r1) = init_websocket_api env r;
          (response, r2) = (if initialized then try_websocket env r1 else (None, r1))
      in case response of
           Some t \<Rightarrow> (Some t, r2)
         | None \<Rightarrow> (None, r2\<lparr>last_method_used := Some BROWSER_AUTOMATION\<rparr>))"

text \<open>
  The browser block either returns the response or raises; the exception reaches the outer
  handler of \<open>send_message\<close> with its message.
\<close>

definition browser_block :: "'a call_env \<Rightarrow> 'a HybridRouter \<Rightarrow> string outcome \<times> 'a HybridRouter" where
  "browser_block env r =
     (let (initialized, r1) = init_browser env r
      in if \<not> initialized then (Raises ''Failed to initialize browser client'', r1)
         else (case browser_send env of
                 Raises e \<Rightarrow> (Raises e, r1)
               | Returns response \<Rightarrow>
                   (case (if truthy response then response else None) of
                      Some t \<Rightarrow>
                        if \<not> contains ''Error:'' t
                        then
                          let r2 = r1\<lparr>browser_failures := 0\<rparr>
                          in (case browser_extract env of
                                Raises e \<Rightarrow> (Raises e, r2)
                              | Returns None \<Rightarrow> (Returns t, r2)
                              | Returns (Some a) \<Rightarrow> (Returns t, store_auth env a r2))
                        else (Raises (''Browser automation failed: '' @ t),
                              r1\<lparr>browser_failures := browser_failures r1 + 1\<rparr>)
                    | None \<Rightarrow>
                        (Raises (''Browser automation failed: '' @
                                 (case response of None \<Rightarrow> ''None'' | Some t \<Rightarrow> t)),
                         r1\<lparr>browser_failures := browser_failures r1 + 1\<rparr>))))"

text \<open>
  The result of a call: the returned string, the strategy whose response it is (if any),
  the strategies whose block was entered, in order, and the router afterwards.
\<close>

record 'a call_result =
  reply :: string
  served_by :: "RouterMethod option"
  attempted :: "RouterMethod list"
  router :: "'a HybridRouter"

text \<open>The three \<open>if method == ...\<close> blocks of \<open>send_message\<close>, from a chosen method.\<close>

definition from_browser ::
  "RouterMethod \<Rightarrow> RouterMethod list \<Rightarrow> 'a call_env \<Rightarrow> 'a HybridRouter \<Rightarrow> 'a call_result" where
  "from_browser m tr env r =
     (if m = BROWSER_AUTOMATION
      then (case browser_block env r of
              (Returns t, r1) \<Rightarrow>
                \<lparr>reply = t, served_by = Some BROWSER_AUTOMATION,
                 attempted = tr @ [BROWSER_AUTOMATION], router = r1\<rparr>
            | (Raises e, r1) \<Rightarrow>
                \<lparr>reply = ''Error: '' @ e, served_by = None,
                 attempted = tr @ [BROWSER_AUTOMATION], router = r1\<rparr>)
      else \<lparr>reply = ''Failed to get a response from Replit Agent through any method.'',
            served_by = None, attempted = tr, router = r\<rparr>)"

definition from_websocket ::
  "RouterMethod \<Rightarrow> RouterMethod list \<Rightarrow> 'a call_env \<Rightarrow> 'a HybridRouter \<Rightarrow> 'a call_result" where
  "from_websocket m tr env r =
     (if m = WEBSOCKET_API
      then (case websocket_block env r of
              (Some t, r1) \<Rightarrow>
                \<lparr>reply = t, served_by = Some WEBSOCKET_API,
                 attempted = tr @ [WEBSOCKET_API], router = r1\<rparr>
            | (None, r1) \<Rightarrow> from_browser BROWSER_AUTOMATION (tr @ [WEBSOCKET_API]) env r1)
      else from_browser m tr env r)"

definition from_method :: "RouterMethod \<Rightarrow> 'a call_env \<Rightarrow> 'a HybridRouter \<Rightarrow> 'a call_result" where
  "from_method m env r =
     (if m = DIRECT_API
      then (case direct_block env r of
              (Some t, r1) \<Rightarrow>
                \<lparr>reply = t, served_by = Some DIRECT_API, attempted = [DIRECT_API], router = r1\<rparr>
            | (None, r1) \<Rightarrow> from_websocket WEBSOCKET_API [DIRECT_API] env r1)
      else from_websocket m [] env r)"

definition send_message :: "'a call_env \<Rightarrow> 'a HybridRouter \<Rightarrow> 'a call_result" where
  "send_message env r =
     (let (m, r1) = determine_method r;
          r2 = r1\<lparr>last_method_used := Some m, total_api_calls := total_api_calls r1 + 1\<rparr>
      in from_method m env r2)"

definition close :: "'a HybridRouter \<Rightarrow> 'a HybridRouter" where
  "close r = r\<lparr>direct_client := False, ws_client := False, browser_client := False\<rparr>"

section \<open>Observations used in the properties\<close>


text \<open>
  A world in which every strategy fails before it sends anything: no connection can be
  made and the browser does not start. The scenarios below override single fields.
\<close>

definition failing_env :: "'a call_env" where
  "failing_env =
     \<lparr>clock = 0, write_ok = True,
      direct_connect = Returns False, direct_send = Returns None, direct_wait = Returns None,
      ws_is_connected = False, ws_close = Returns (), ws_connect = Returns False,
      ws_send = Returns None, ws_wait = Returns None,
      browser_initialized = False, browser_construct = Returns (),
      browser_start = Returns False, browser_extract_on_start = Returns None,
      browser_send = Returns None, browser_extract = Returns None\<rparr>"

definition empty_store :: "'a TokenManager" where
  "empty_store = \<lparr>tokens = Map.empty, tokens_file = FileMissing\<rparr>"

definition fresh_router :: "nat HybridRouter" where
  "fresh_router = HybridRouter_init ''42'' empty_store AUTO"

text \<open>Authentication data that carries both connection identifiers.\<close>

definition ids_auth :: ws_auth_data where
  "ids_auth = \<lparr>auth_client_id = Some ''c1'', auth_session_id = Some ''s1'',
      websocket_params = None, websocket_connections = None\<rparr>"

text \<open>A world in which only the browser answers.\<close>

definition browser_ok_env :: "nat call_env" where
  "browser_ok_env = failing_env\<lparr>browser_start := Returns True,
       browser_send := Returns (Some ''hello-response'')\<rparr>"

text \<open>
  Worlds for single calls: the direct strategy answers; the direct client connects and
  sends but no response arrives before the timeout; the direct client cannot connect and
  the WebSocket client connects, or is still connected, and sends but gets no response.
\<close>

definition direct_ok_env :: "nat call_env" where
  "direct_ok_env = failing_env\<lparr>direct_connect := Returns True,
       direct_send := Returns (Some ''m1''), direct_wait := Returns (Some ''hello-response'')\<rparr>"

definition direct_timeout_env :: "nat call_env" where
  "direct_timeout_env = failing_env\<lparr>direct_connect := Returns True,
       direct_send := Returns (Some ''m1''), direct_wait := Returns None\<rparr>"

definition ws_silent_env :: "'a call_env" where
  "ws_silent_env = failing_env\<lparr>ws_is_connected := True, ws_connect := Returns True,
       ws_send := Returns (Some ''m2''), ws_wait := Returns None\<rparr>"



text \<open>Clients with one request registered, for the scenarios.\<close>

definition ws_registered :: "bool \<Rightarrow> bool \<Rightarrow> ReplitWebSocketClient" where
  "ws_registered upd compl =
     snd (ws_send_message 1000 (\<lambda>_. 7) SocketOK True ''hi'' (Some ''m1'') upd compl
            (ReplitWebSocketClient_init ids_auth))"


definition ws_connected :: ReplitWebSocketClient where
  "ws_connected = (ReplitWebSocketClient_init ids_auth)\<lparr>ws := True, state := CONNECTED, task := True\<rparr>"

text \<open>
  Routers with all three thresholds set to \<open>n\<close>, one call in the world where every
  strategy fails, and the state such calls lead to: unpinned, no socket client held, and
  every counter at \<open>k\<close>.
\<close>

definition with_thresholds :: "int \<Rightarrow> 'a HybridRouter \<Rightarrow> 'a HybridRouter" where
  "with_thresholds n r =
     r\<lparr>max_direct_api_failures := n, max_websocket_failures := n, max_browser_failures := n\<rparr>"

definition failing_call :: "'a HybridRouter \<Rightarrow> 'a HybridRouter" where
  "failing_call r = router (send_message failing_env r)"

definition all_failed :: "int \<Rightarrow> int \<Rightarrow> 'a HybridRouter \<Rightarrow> bool" where
  "all_failed n k r =
     (method' r = AUTO \<and> \<not> direct_client r \<and> \<not> ws_client r \<and>
      direct_api_failures r = k \<and> websocket_failures r = k \<and> browser_failures r = k \<and>
      max_direct_api_failures r = n \<and> max_websocket_failures r = n \<and> max_browser_failures r = n)"

text \<open>
  One call in the world where the direct client cannot connect, the WebSocket client
  connects and sends but no response arrives before its timeout, and the browser does not
  start; and the state such calls lead to: the direct and browser counters at \<open>k\<close>,
  the WebSocket counter at zero.
\<close>

definition silent_call :: "'a HybridRouter \<Rightarrow> 'a HybridRouter" where
  "silent_call r = router (send_message ws_silent_env r)"

definition timed_out :: "int \<Rightarrow> int \<Rightarrow> 'a HybridRouter \<Rightarrow> bool" where
  "timed_out n k r =
     (method' r = AUTO \<and> \<not> direct_client r \<and> successful_api_calls r = 0 \<and>
      direct_api_failures r = k \<and> websocket_failures r = 0 \<and> browser_failures r = k \<and>
      max_direct_api_failures r = n \<and> max_websocket_failures r = n \<and> max_browser_failures r = n)"

text \<open>The default router, thresholds 3, after three such calls.\<close>

definition stuck_router :: "nat HybridRouter" where
  "stuck_router = (silent_call ^^ 3) (with_thresholds 3 (HybridRouter_init ''42'' empty_store AUTO))"

text \<open>
  A session of a router: calls of \<open>send_message\<close>, each in its own world, and calls of
  \<open>close\<close>; \<open>answered\<close> lists the strategies whose response a call returned, in order.
\<close>

datatype 'a session_step = Call "'a call_env" | Close

fun run_session :: "'a session_step list \<Rightarrow> 'a HybridRouter \<Rightarrow> 'a HybridRouter" where
  "run_session [] r = r"
| "run_session (Call env # ss) r = run_session ss (router (send_message env r))"
| "run_session (Close # ss) r = run_session ss (close r)"

fun answered :: "'a session_step list \<Rightarrow> 'a HybridRouter \<Rightarrow> RouterMethod list" where
  "answered [] r = []"
| "answered (Call env # ss) r =
     (case served_by (send_message env r) of None \<Rightarrow> [] | Some m \<Rightarrow> [m])
       @ answered ss (router (send_message env r))"
| "answered (Close # ss) r = answered ss (close r)"

text \<open>
  A world in which the WebSocket strategy answers, the direct client being unable to
  connect.
\<close>

definition ws_ok_env :: "nat call_env" where
  "ws_ok_env = failing_env\<lparr>ws_connect := Returns True,
       ws_send := Returns (Some ''m2''), ws_wait := Returns (Some ''pong'')\<rparr>"

text \<open>What an answer adds to \<open>successful_api_calls\<close>.\<close>

definition socket_answer :: "RouterMethod option \<Rightarrow> int" where
  "socket_answer s = (if s = Some DIRECT_API \<or> s = Some WEBSOCKET_API then 1 else 0)"


section \<open>Simplification sets for concrete runs\<close>

lemmas router_eval = send_message_def determine_method_def from_method_def from_websocket_def
  from_browser_def direct_block_def websocket_block_def browser_block_def
  init_direct_api_def init_websocket_api_def init_browser_def try_direct_def try_websocket_def
  truthy_def store_auth_def HybridRouter_init_def

lemmas scenario_eval = fresh_router_def failing_env_def empty_store_def

lemmas client_eval = ws_registered_def ws_send_message_def ReplitWebSocketClient_init_def
  ids_auth_def connect_def has_on_update_def has_on_complete_def Let_def

section \<open>Properties of the credential store\<close>

lemma tokens_save_tokens: "tokens (snd (save_tokens w tm)) = tokens tm"
  by (simp add: save_tokens_def)

lemma tokens_load_tokens_unusable:
  "tokens_file tm \<in> {FileUnreadable, FileUndecryptable} \<Longrightarrow> tokens (load_tokens tm) = Map.empty"
  by (auto simp: load_tokens_def)

text \<open>
  Claim C8. Storing a bundle \<open>b\<close> for user \<open>u\<close> and then reading \<open>u\<close> gives back
  \<open>b\<close>, whether or not the file write succeeded; and after \<open>delete_user_tokens u\<close> a
  read of \<open>u\<close> gives \<open>None\<close>, from any state of the store.
\<close>

theorem store_get_delete_roundtrip:
  "get_user_tokens (snd (store_user_tokens now w u b tm)) u = Some b \<and>
   get_user_tokens (snd (delete_user_tokens w' u tm)) u = None \<and>
   get_user_tokens (snd (delete_user_tokens w' u (snd (store_user_tokens now w u b tm)))) u = None"
  by (simp add: store_user_tokens_def delete_user_tokens_def get_user_tokens_def
      save_tokens_def truthy_entry_def domIff split: option.splits)

theorem store_get_delete_roundtrip_witness:
  "get_user_tokens (snd (store_user_tokens 1700000000 False ''42'' (7::nat)
      \<lparr>tokens = Map.empty, tokens_file = FileMissing\<rparr>)) ''42'' = Some 7 \<and>
   get_user_tokens (snd (delete_user_tokens True ''42''
      (snd (store_user_tokens 1700000000 False ''42'' (7::nat)
         \<lparr>tokens = Map.empty, tokens_file = FileMissing\<rparr>)))) ''42'' = None"
  using store_get_delete_roundtrip
    [where now = 1700000000 and w = False and w' = True and u = "''42''" and b = "7::nat"
       and tm = "\<lparr>tokens = Map.empty, tokens_file = FileMissing\<rparr>"]
  by simp

text \<open>
  Claim C10. Once the storage directory and the cipher are set up, a tokens file that is
  missing, cannot be read or does not decrypt never makes the construction fail: the
  constructor returns a manager whose mapping is empty, and \<open>get_user_tokens\<close> returns
  \<open>None\<close> for every user.
\<close>

theorem load_failure_gives_empty_store:
  assumes "tf \<in> {FileMissing, FileUnreadable, FileUndecryptable}"
    and "setup_encryption acc (case k of Some k' \<Rightarrow> k' | None \<Rightarrow> if ek = [] then gk else ek) = Inr ()"
  shows "\<exists>tm. TokenManager_init True acc k ek gk tf = Inr tm \<and> tokens tm = Map.empty \<and>
           (\<forall>u. get_user_tokens tm u = None)"
  using assms
  by (auto simp: TokenManager_init_def load_tokens_def get_user_tokens_def)

theorem load_failure_gives_empty_store_witness:
  "FileUndecryptable \<in> {FileMissing, FileUnreadable, FileUndecryptable :: nat tokens_file_state} \<and>
   setup_encryption (\<lambda>_. False) ''secret'' = Inr () \<and>
   (\<exists>tm. TokenManager_init True (\<lambda>_. False) (Some ''secret'') [] [] FileUndecryptable
          = Inr (tm :: nat TokenManager) \<and>
        tokens tm = Map.empty \<and> (\<forall>u. get_user_tokens tm u = None))"
  using load_failure_gives_empty_store
    [where tf = "FileUndecryptable :: nat tokens_file_state" and acc = "\<lambda>_. False"
       and k = "Some ''secret''" and ek = "[]" and gk = "[]"]
  by (simp add: setup_encryption_def endswith_eq_def)

section \<open>Properties of the WebSocket transport\<close>

lemma slept_apply_params: "slept (apply_params p c) = slept c"
  by (simp add: apply_params_def Let_def split: option.splits)

lemma slept_apply_connections: "slept (apply_connections ps c) = slept c"
  by (induction ps c rule: apply_connections.induct) (simp_all add: slept_apply_params)

lemma slept_connect: "slept (snd (connect ok c)) = slept c"
  by (simp add: connect_def extract_connection_params_def Let_def slept_apply_params
      slept_apply_connections split: option.splits prod.splits socket_outcome.splits)

text \<open>
  Claim C7. On the \<open>k\<close>-th reconnection attempt, \<open>1 \<le> k \<le> max_reconnect_attempts\<close>,
  \<open>reconnect\<close> sleeps for \<open>min (backoff_time * 2 ^ (k - 1)) max_backoff_time\<close> and then
  calls \<open>connect\<close>; once as many attempts as the maximum have been made, it sets the
  state to \<open>ERROR\<close> and returns \<open>False\<close> without sleeping or connecting.
\<close>

theorem reconnect_backoff:
  "(1 \<le> k \<and> k \<le> max_reconnect_attempts c \<and> reconnect_attempts c = k - 1 \<longrightarrow>
      reconnect ok c =
        connect ok (c\<lparr>reconnect_attempts := k, state := BACKING_OFF,
                      slept := slept c @ [min (backoff_time c * 2 ^ (k - 1)) (max_backoff_time c)]\<rparr>) \<and>
      slept (snd (reconnect ok c)) =
        slept c @ [min (backoff_time c * 2 ^ (k - 1)) (max_backoff_time c)]) \<and>
   (max_reconnect_attempts c \<le> reconnect_attempts c \<longrightarrow>
      reconnect ok c = (False, c\<lparr>state := ERROR\<rparr>))"
proof -
  have a: "reconnect ok c =
        connect ok (c\<lparr>reconnect_attempts := k, state := BACKING_OFF,
                      slept := slept c @ [min (backoff_time c * 2 ^ (k - 1)) (max_backoff_time c)]\<rparr>)"
    if "1 \<le> k" "k \<le> max_reconnect_attempts c" "reconnect_attempts c = k - 1"
  proof -
    from that have "\<not> max_reconnect_attempts c \<le> reconnect_attempts c" by arith
    moreover from that have "Suc (reconnect_attempts c) = k" by arith
    ultimately show ?thesis by (simp add: reconnect_def Let_def)
  qed
  have b: "reconnect ok c = (False, c\<lparr>state := ERROR\<rparr>)"
    if "max_reconnect_attempts c \<le> reconnect_attempts c"
    using that by (simp add: reconnect_def)
  show ?thesis using a b by (simp add: slept_connect)
qed

theorem reconnect_backoff_witness:
  "slept (snd (reconnect ConnectRaises
      ((ReplitWebSocketClient_init ids_auth)\<lparr>reconnect_attempts := 3\<rparr>))) = [8] \<and>
   slept (snd (reconnect ConnectRaises
      ((ReplitWebSocketClient_init ids_auth)\<lparr>max_backoff_time := 5, reconnect_attempts := 3\<rparr>))) = [5] \<and>
   reconnect ConnectRaises ((ReplitWebSocketClient_init ids_auth)\<lparr>reconnect_attempts := 5\<rparr>) =
     (False, (ReplitWebSocketClient_init ids_auth)\<lparr>reconnect_attempts := 5, state := ERROR\<rparr>)"
  using reconnect_backoff [where k = 4 and ok = ConnectRaises
      and c = "(ReplitWebSocketClient_init ids_auth)\<lparr>reconnect_attempts := 3\<rparr>"]
    reconnect_backoff [where k = 4 and ok = ConnectRaises
      and c = "(ReplitWebSocketClient_init ids_auth)\<lparr>max_backoff_time := 5, reconnect_attempts := 3\<rparr>"]
    reconnect_backoff [where k = 6 and ok = ConnectRaises
      and c = "(ReplitWebSocketClient_init ids_auth)\<lparr>reconnect_attempts := 5\<rparr>"]
  by (simp add: ReplitWebSocketClient_init_def slept_connect)

section \<open>Properties of the router\<close>

lemma breaker_core:
  assumes "method' r = AUTO"
    and "max_direct_api_failures r \<le> direct_api_failures r"
    and "max_websocket_failures r \<le> websocket_failures r"
    and "max_browser_failures r \<le> browser_failures r"
  shows "determine_method r =
           (DIRECT_API, r\<lparr>direct_api_failures := 0, websocket_failures := 0, browser_failures := 0\<rparr>) \<and>
         send_message env r =
           from_method DIRECT_API env
             (r\<lparr>direct_api_failures := 0, websocket_failures := 0, browser_failures := 0,
                last_method_used := Some DIRECT_API, total_api_calls := total_api_calls r + 1\<rparr>) \<and>
         (\<exists>rest. attempted (send_message env r) = DIRECT_API # rest)"
proof -
  have d: "determine_method r =
           (DIRECT_API, r\<lparr>direct_api_failures := 0, websocket_failures := 0, browser_failures := 0\<rparr>)"
    using assms by (simp add: determine_method_def)
  have s: "send_message env r =
           from_method DIRECT_API env
             (r\<lparr>direct_api_failures := 0, websocket_failures := 0, browser_failures := 0,
                last_method_used := Some DIRECT_API, total_api_calls := total_api_calls r + 1\<rparr>)"
    by (simp add: send_message_def d)
  have a: "\<exists>rest. attempted (from_method DIRECT_API env r') = DIRECT_API # rest"
    for r' :: "'a HybridRouter"
    by (auto simp: from_method_def from_websocket_def from_browser_def
        split: prod.splits option.splits outcome.splits)
  show ?thesis using d s a by simp
qed

lemma all_failed_step:
  assumes "all_failed n k r" and "k < n"
  shows "all_failed n (k + 1) (failing_call r)"
  using assms
  by (simp add: all_failed_def failing_call_def failing_env_def router_eval)

lemma all_failed_iterate:
  "k \<le> n \<Longrightarrow>
   all_failed (int n) (int k)
     ((failing_call ^^ k) (with_thresholds (int n) (HybridRouter_init uid tm AUTO)))"
proof (induction k)
  case 0
  then show ?case by (simp add: all_failed_def with_thresholds_def HybridRouter_init_def)
next
  case (Suc k)
  then have "all_failed (int n) (int k)
     ((failing_call ^^ k) (with_thresholds (int n) (HybridRouter_init uid tm AUTO)))"
    by simp
  from all_failed_step [OF this] Suc.prems show ?case by (simp add: add.commute)
qed

text \<open>
  The reset itself works: when the router is not pinned and each of the three counters has
  reached its threshold, \<open>_determine_method\<close> zeroes them and returns \<open>DIRECT_API\<close>
  (\<open>breaker_core\<close>). Failures that the router counts lead there: a fresh router with all
  thresholds set to \<open>n\<close> has every counter at \<open>n\<close> after \<open>n\<close> calls in which every
  strategy fails to initialise, and the next call resets.
\<close>

lemma breaker_after_counted_failures:
  "(method' r = AUTO \<and> max_direct_api_failures r \<le> direct_api_failures r \<and>
    max_websocket_failures r \<le> websocket_failures r \<and>
    max_browser_failures r \<le> browser_failures r \<longrightarrow>
      determine_method r =
        (DIRECT_API, r\<lparr>direct_api_failures := 0, websocket_failures := 0, browser_failures := 0\<rparr>) \<and>
      send_message env r =
        from_method DIRECT_API env
          (r\<lparr>direct_api_failures := 0, websocket_failures := 0, browser_failures := 0,
             last_method_used := Some DIRECT_API, total_api_calls := total_api_calls r + 1\<rparr>) \<and>
      (\<exists>rest. attempted (send_message env r) = DIRECT_API # rest)) \<and>
   (let locked = (failing_call ^^ n) (with_thresholds (int n) (HybridRouter_init uid tm AUTO))
    in direct_api_failures locked = int n \<and> websocket_failures locked = int n \<and>
       browser_failures locked = int n \<and>
       determine_method locked =
         (DIRECT_API,
          locked\<lparr>direct_api_failures := 0, websocket_failures := 0, browser_failures := 0\<rparr>) \<and>
       (\<exists>rest. attempted (send_message env' locked) = DIRECT_API # rest))"
proof -
  define locked where
    "locked = (failing_call ^^ n) (with_thresholds (int n) (HybridRouter_init uid tm AUTO))"
  have l: "all_failed (int n) (int n) locked"
    unfolding locked_def by (rule all_failed_iterate) simp
  then have h: "method' locked = AUTO"
    "max_direct_api_failures locked \<le> direct_api_failures locked"
    "max_websocket_failures locked \<le> websocket_failures locked"
    "max_browser_failures locked \<le> browser_failures locked"
    by (simp_all add: all_failed_def)
  from l have c: "direct_api_failures locked = int n" "websocket_failures locked = int n"
    "browser_failures locked = int n"
    by (simp_all add: all_failed_def)
  have 2: "direct_api_failures locked = int n \<and> websocket_failures locked = int n \<and>
       browser_failures locked = int n \<and>
       determine_method locked =
         (DIRECT_API,
          locked\<lparr>direct_api_failures := 0, websocket_failures := 0, browser_failures := 0\<rparr>) \<and>
       (\<exists>rest. attempted (send_message env' locked) = DIRECT_API # rest)"
    using breaker_core [OF h, of env'] c by blast
  have 1: "method' r = AUTO \<and> max_direct_api_failures r \<le> direct_api_failures r \<and>
    max_websocket_failures r \<le> websocket_failures r \<and>
    max_browser_failures r \<le> browser_failures r \<longrightarrow>
      determine_method r =
        (DIRECT_API, r\<lparr>direct_api_failures := 0, websocket_failures := 0, browser_failures := 0\<rparr>) \<and>
      send_message env r =
        from_method DIRECT_API env
          (r\<lparr>direct_api_failures := 0, websocket_failures := 0, browser_failures := 0,
             last_method_used := Some DIRECT_API, total_api_calls := total_api_calls r + 1\<rparr>) \<and>
      (\<exists>rest. attempted (send_message env r) = DIRECT_API # rest)"
    using breaker_core [of r env] by blast
  show ?thesis
    unfolding Let_def using 1 2 unfolding locked_def by blast
qed

text \<open>How each part of a call treats the success counter and the failure counters.\<close>

lemma succ_determine: "successful_api_calls (snd (determine_method r)) = successful_api_calls r"
  by (simp add: determine_method_def)

lemma succ_init_direct: "successful_api_calls (snd (init_direct_api env r)) = successful_api_calls r"
  by (simp add: init_direct_api_def split: outcome.splits bool.splits)

lemma succ_init_websocket: "successful_api_calls (snd (init_websocket_api env r)) = successful_api_calls r"
  by (simp add: init_websocket_api_def Let_def split: outcome.splits bool.splits)

lemma succ_init_browser: "successful_api_calls (snd (init_browser env r)) = successful_api_calls r"
  by (simp add: init_browser_def Let_def store_auth_def split: outcome.splits bool.splits option.splits)

lemma try_direct_cases:
  "try_direct env r = (Some t, r') \<Longrightarrow>
     r' = r\<lparr>direct_api_failures := 0, successful_api_calls := successful_api_calls r + 1\<rparr>"
  "try_direct env r = (None, r') \<Longrightarrow> successful_api_calls r' = successful_api_calls r"
  by (auto simp: try_direct_def truthy_def split: outcome.splits if_splits)

lemma try_websocket_cases:
  "try_websocket env r = (Some t, r') \<Longrightarrow>
     r' = r\<lparr>websocket_failures := 0, successful_api_calls := successful_api_calls r + 1\<rparr>"
  "try_websocket env r = (None, r') \<Longrightarrow> successful_api_calls r' = successful_api_calls r"
  by (auto simp: try_websocket_def truthy_def split: outcome.splits if_splits)

lemma direct_block_cases:
  "direct_block env r = (Some t, r') \<Longrightarrow>
     direct_api_failures r' = 0 \<and> successful_api_calls r' = successful_api_calls r + 1"
  "direct_block env r = (None, r') \<Longrightarrow> successful_api_calls r' = successful_api_calls r"
  using succ_init_direct [of env r]
  by (auto simp: direct_block_def Let_def split: prod.splits option.splits if_splits
      dest: try_direct_cases)

lemma websocket_block_cases:
  "websocket_block env r = (Some t, r') \<Longrightarrow>
     websocket_failures r' = 0 \<and> successful_api_calls r' = successful_api_calls r + 1"
  "websocket_block env r = (None, r') \<Longrightarrow> successful_api_calls r' = successful_api_calls r"
  using succ_init_websocket [of env r]
  by (auto simp: websocket_block_def Let_def split: prod.splits option.splits if_splits
      dest: try_websocket_cases)

lemma browser_block_success:
  "browser_block env r = (Returns t, r') \<Longrightarrow>
     browser_failures r' = 0 \<and> successful_api_calls r' = successful_api_calls r"
  using succ_init_browser [of env r]
  by (auto simp: browser_block_def Let_def store_auth_def
      split: prod.splits option.splits if_splits outcome.splits)

lemma from_browser_served:
  "served_by (from_browser m tr env r) = Some s \<Longrightarrow>
     s = BROWSER_AUTOMATION \<and> browser_failures (router (from_browser m tr env r)) = 0 \<and>
     successful_api_calls (router (from_browser m tr env r)) = successful_api_calls r"
  by (auto simp: from_browser_def split: if_splits prod.splits outcome.splits
      dest: browser_block_success)

lemma from_websocket_served_browser:
  assumes "served_by (from_websocket m tr env r) = Some BROWSER_AUTOMATION"
  shows "browser_failures (router (from_websocket m tr env r)) = 0 \<and>
     successful_api_calls (router (from_websocket m tr env r)) = successful_api_calls r"
proof (cases "m = WEBSOCKET_API")
  case False
  then show ?thesis using assms from_browser_served [of m tr env r]
    by (simp add: from_websocket_def)
next
  case True
  obtain resp r1 where w: "websocket_block env r = (resp, r1)"
    by (cases "websocket_block env r")
  show ?thesis
  proof (cases resp)
    case (Some t)
    then show ?thesis using assms True w by (simp add: from_websocket_def)
  next
    case None
    then have "from_websocket m tr env r = from_browser BROWSER_AUTOMATION (tr @ [WEBSOCKET_API]) env r1"
      using True w by (simp add: from_websocket_def)
    moreover have "successful_api_calls r1 = successful_api_calls r"
      using w None websocket_block_cases(2) by blast
    ultimately show ?thesis
      using assms from_browser_served [of BROWSER_AUTOMATION "tr @ [WEBSOCKET_API]" env r1]
      by simp
  qed
qed

lemma from_method_served_browser:
  assumes "served_by (from_method m env r) = Some BROWSER_AUTOMATION"
  shows "browser_failures (router (from_method m env r)) = 0 \<and>
     successful_api_calls (router (from_method m env r)) = successful_api_calls r"
proof (cases "m = DIRECT_API")
  case False
  then show ?thesis using assms from_websocket_served_browser [of m "[]" env r]
    by (simp add: from_method_def)
next
  case True
  obtain resp r1 where w: "direct_block env r = (resp, r1)"
    by (cases "direct_block env r")
  show ?thesis
  proof (cases resp)
    case (Some t)
    then show ?thesis using assms True w by (simp add: from_method_def)
  next
    case None
    then have "from_method m env r = from_websocket WEBSOCKET_API [DIRECT_API] env r1"
      using True w by (simp add: from_method_def)
    moreover have "successful_api_calls r1 = successful_api_calls r"
      using w None direct_block_cases(2) by blast
    ultimately show ?thesis
      using assms from_websocket_served_browser [of WEBSOCKET_API "[DIRECT_API]" env r1]
      by simp
  qed
qed

text \<open>
  A call that is answered attempts no strategy after the one that answered.
\<close>

lemma served_last_from_browser:
  "served_by (from_browser m tr env r) = Some s \<Longrightarrow>
     attempted (from_browser m tr env r) = tr @ [s]"
  by (auto simp: from_browser_def split: if_splits prod.splits outcome.splits)

lemma served_last_from_websocket:
  "served_by (from_websocket m tr env r) = Some s \<Longrightarrow>
     \<exists>xs. attempted (from_websocket m tr env r) = tr @ xs @ [s]"
proof (cases "m = WEBSOCKET_API")
  case False
  assume "served_by (from_websocket m tr env r) = Some s"
  then show ?thesis using False served_last_from_browser [of m tr env r s]
    by (simp add: from_websocket_def)
next
  case True
  assume a: "served_by (from_websocket m tr env r) = Some s"
  obtain resp r1 where w: "websocket_block env r = (resp, r1)"
    by (cases "websocket_block env r")
  show ?thesis
  proof (cases resp)
    case (Some t)
    then show ?thesis using a True w by (auto simp: from_websocket_def)
  next
    case None
    then show ?thesis
      using a True w
        served_last_from_browser [of BROWSER_AUTOMATION "tr @ [WEBSOCKET_API]" env r1 s]
      by (auto simp: from_websocket_def)
  qed
qed

lemma served_is_last_attempted:
  assumes "served_by (send_message env r) = Some s"
  shows "\<exists>xs. attempted (send_message env r) = xs @ [s]"
proof -
  obtain m r1 where d: "determine_method r = (m, r1)" by (cases "determine_method r")
  let ?r2 = "r1\<lparr>last_method_used := Some m, total_api_calls := total_api_calls r1 + 1\<rparr>"
  have s: "send_message env r = from_method m env ?r2"
    by (simp add: send_message_def d)
  show ?thesis
  proof (cases "m = DIRECT_API")
    case False
    then show ?thesis
      using assms s served_last_from_websocket [of m "[]" env ?r2 s]
      by (auto simp: from_method_def)
  next
    case True
    obtain resp r3 where w: "direct_block env ?r2 = (resp, r3)"
      by (cases "direct_block env ?r2")
    show ?thesis
    proof (cases resp)
      case (Some t)
      then show ?thesis using assms s True w by (auto simp: from_method_def)
    next
      case None
      then show ?thesis
        using assms s True w served_last_from_websocket [of WEBSOCKET_API "[DIRECT_API]" env r3 s]
        by (auto simp: from_method_def)
    qed
  qed
qed

text \<open>
  Claim C2, on the code. A call answered by the direct or the WebSocket strategy resets
  that strategy's counter and adds one to \<open>successful_api_calls\<close> (lemmas
  \<open>direct_block_cases\<close> and \<open>websocket_block_cases\<close>), and no later strategy is
  attempted (\<open>served_is_last_attempted\<close>). A call answered by browser automation resets
  \<open>browser_failures\<close> but leaves \<open>successful_api_calls\<close> as it was.
\<close>

theorem browser_success_not_counted:
  assumes "served_by (send_message env r) = Some BROWSER_AUTOMATION"
  shows "browser_failures (router (send_message env r)) = 0 \<and>
         successful_api_calls (router (send_message env r)) = successful_api_calls r"
proof -
  obtain m r1 where d: "determine_method r = (m, r1)" by (cases "determine_method r")
  let ?r2 = "r1\<lparr>last_method_used := Some m, total_api_calls := total_api_calls r1 + 1\<rparr>"
  have s: "send_message env r = from_method m env ?r2"
    by (simp add: send_message_def d)
  have "successful_api_calls ?r2 = successful_api_calls r"
    using succ_determine [of r] d by simp
  with assms s from_method_served_browser [of m env ?r2] show ?thesis by simp
qed

theorem browser_success_not_counted_witness:
  "served_by (send_message browser_ok_env fresh_router) = Some BROWSER_AUTOMATION \<and>
   reply (send_message browser_ok_env fresh_router) = ''hello-response'' \<and>
   browser_failures (router (send_message browser_ok_env fresh_router)) = 0 \<and>
   total_api_calls (router (send_message browser_ok_env fresh_router)) = 1 \<and>
   successful_api_calls (router (send_message browser_ok_env fresh_router)) = 0"
  using browser_success_not_counted [where env = browser_ok_env and r = fresh_router]
  by (simp add: browser_ok_env_def fresh_router_def failing_env_def router_eval empty_store_def)

text \<open>
  Claim C3, on the code. When the direct client is initialised and has sent the message,
  and \<open>wait_for_response\<close> returns \<open>None\<close> (its timeout) or an empty response, the
  direct block leaves \<open>direct_api_failures\<close> as it was and control escalates to the
  WebSocket strategy. An exception is counted once (\<open>exception_counted_once\<close>), and no
  strategy is attempted twice in a call (\<open>attempted_distinct\<close>).
\<close>

theorem no_response_not_counted:
  assumes "direct_client r \<or> direct_connect env = Returns True"
    and "direct_send env = Returns (Some mid)" and "mid \<noteq> []"
    and "direct_wait env = Returns resp" and "\<not> truthy resp"
  shows "direct_block env r =
           (None, r\<lparr>direct_client := True, last_method_used := Some WEBSOCKET_API\<rparr>) \<and>
         direct_api_failures (snd (direct_block env r)) = direct_api_failures r \<and>
         from_method DIRECT_API env r =
           from_websocket WEBSOCKET_API [DIRECT_API] env
             (r\<lparr>direct_client := True, last_method_used := Some WEBSOCKET_API\<rparr>)"
proof -
  have i: "init_direct_api env r = (True, r\<lparr>direct_client := True\<rparr>)"
    using assms(1) by (auto simp: init_direct_api_def)
  have t: "try_direct env r' = (None, r')" for r' :: "'a HybridRouter"
    using assms(2-5) by (simp add: try_direct_def truthy_def)
  have b: "direct_block env r =
           (None, r\<lparr>direct_client := True, last_method_used := Some WEBSOCKET_API\<rparr>)"
    by (simp add: direct_block_def i t)
  then show ?thesis by (simp add: from_method_def)
qed

theorem no_response_not_counted_witness:
  "direct_api_failures (snd (direct_block direct_timeout_env
      (fresh_router\<lparr>last_method_used := Some DIRECT_API, total_api_calls := 1\<rparr>))) = 0 \<and>
   attempted (send_message direct_timeout_env fresh_router)
     = [DIRECT_API, WEBSOCKET_API, BROWSER_AUTOMATION] \<and>
   direct_api_failures (router (send_message direct_timeout_env fresh_router)) = 0 \<and>
   websocket_failures (router (send_message direct_timeout_env fresh_router)) = 1 \<and>
   browser_failures (router (send_message direct_timeout_env fresh_router)) = 1"
  using no_response_not_counted [where env = direct_timeout_env and mid = "''m1''" and resp = None
      and r = "fresh_router\<lparr>last_method_used := Some DIRECT_API, total_api_calls := 1\<rparr>"]
  by (simp add: direct_timeout_env_def scenario_eval router_eval)

lemma exception_counted_once:
  assumes "direct_client r \<or> direct_connect env = Returns True"
    and "direct_send env = Raises e \<or>
         (direct_send env = Returns (Some mid) \<and> mid \<noteq> [] \<and> direct_wait env = Raises e)"
  shows "direct_block env r =
           (None, r\<lparr>direct_client := True, direct_api_failures := direct_api_failures r + 1,
                     last_method_used := Some WEBSOCKET_API\<rparr>)"
proof -
  have i: "init_direct_api env r = (True, r\<lparr>direct_client := True\<rparr>)"
    using assms(1) by (auto simp: init_direct_api_def)
  have t: "try_direct env r' = (None, r'\<lparr>direct_api_failures := direct_api_failures r' + 1\<rparr>)"
    for r' :: "'a HybridRouter"
    using assms(2) by (auto simp: try_direct_def truthy_def)
  show ?thesis by (simp add: direct_block_def i t)
qed

lemma attempted_from_browser:
  "attempted (from_browser m tr env r) = tr @ (if m = BROWSER_AUTOMATION then [m] else [])"
  by (simp add: from_browser_def split: prod.splits outcome.splits)

lemma attempted_from_websocket:
  "\<exists>xs. attempted (from_websocket m tr env r) = tr @ xs \<and> distinct xs \<and> DIRECT_API \<notin> set xs"
  by (auto simp: from_websocket_def attempted_from_browser split: prod.splits option.splits)

lemma attempted_from_method: "distinct (attempted (from_method m env r))"
proof (cases "m = DIRECT_API")
  case False
  then show ?thesis using attempted_from_websocket [of m "[]" env r]
    by (auto simp: from_method_def)
next
  case True
  obtain resp r1 where d: "direct_block env r = (resp, r1)" by (cases "direct_block env r")
  obtain xs where "attempted (from_websocket WEBSOCKET_API [DIRECT_API] env r1) = [DIRECT_API] @ xs"
    "distinct xs" "DIRECT_API \<notin> set xs"
    using attempted_from_websocket [of WEBSOCKET_API "[DIRECT_API]" env r1] by blast
  then show ?thesis using True d by (cases resp) (simp_all add: from_method_def)
qed

lemma attempted_distinct: "distinct (attempted (send_message env r))"
  by (simp add: send_message_def attempted_from_method split: prod.splits)

lemma timed_out_step:
  assumes "timed_out n k r" and "k < n"
  shows "timed_out n (k + 1) (silent_call r) \<and>
         served_by (send_message ws_silent_env r) = None \<and>
         attempted (send_message ws_silent_env r) = [DIRECT_API, WEBSOCKET_API, BROWSER_AUTOMATION]"
  using assms
  by (cases "ws_client r")
     (simp_all add: timed_out_def silent_call_def ws_silent_env_def failing_env_def router_eval)

lemma timed_out_iterate:
  "k \<le> n \<Longrightarrow>
   timed_out (int n) (int k)
     ((silent_call ^^ k) (with_thresholds (int n) (HybridRouter_init uid tm AUTO)))"
proof (induction k)
  case 0
  then show ?case by (simp add: timed_out_def with_thresholds_def HybridRouter_init_def)
next
  case (Suc k)
  then have "timed_out (int n) (int k)
     ((silent_call ^^ k) (with_thresholds (int n) (HybridRouter_init uid tm AUTO)))"
    by simp
  from timed_out_step [OF this] Suc.prems show ?case by (simp add: add.commute)
qed

lemma timed_out_selects_websocket:
  assumes "timed_out n n r" and "0 < n"
  shows "determine_method r = (WEBSOCKET_API, r) \<and>
         DIRECT_API \<notin> set (attempted (send_message env r))"
proof -
  have d: "determine_method r = (WEBSOCKET_API, r)"
    using assms by (simp add: timed_out_def determine_method_def)
  obtain xs where "attempted (from_websocket WEBSOCKET_API [] env
      (r\<lparr>last_method_used := Some WEBSOCKET_API, total_api_calls := total_api_calls r + 1\<rparr>)) = [] @ xs"
    "DIRECT_API \<notin> set xs"
    using attempted_from_websocket by blast
  then show ?thesis using d by (simp add: send_message_def from_method_def)
qed

text \<open>
  Claim C1, on the code. With all thresholds set to \<open>n > 0\<close>, take \<open>n\<close> calls in each
  of which every strategy fails: the direct client cannot connect, the WebSocket client
  gets no response before its timeout, the browser does not start. The timeouts are not
  counted, so afterwards the counters stand at \<open>n\<close>, \<open>0\<close> and \<open>n\<close>; the next call
  resets nothing, selects \<open>WEBSOCKET_API\<close>, and never attempts the first strategy.
\<close>

theorem uncounted_failures_prevent_reset:
  "0 < n \<longrightarrow>
   (let start = with_thresholds (int n) (HybridRouter_init uid tm AUTO);
        stuck = (silent_call ^^ n) start
    in (\<forall>k<n. served_by (send_message ws_silent_env ((silent_call ^^ k) start)) = None \<and>
               attempted (send_message ws_silent_env ((silent_call ^^ k) start)) =
                 [DIRECT_API, WEBSOCKET_API, BROWSER_AUTOMATION]) \<and>
       direct_api_failures stuck = int n \<and> websocket_failures stuck = 0 \<and>
       browser_failures stuck = int n \<and>
       determine_method stuck = (WEBSOCKET_API, stuck) \<and>
       DIRECT_API \<notin> set (attempted (send_message env stuck)))"
proof
  assume n: "0 < n"
  define start where "start = with_thresholds (int n) (HybridRouter_init uid tm AUTO)"
  define stuck where "stuck = (silent_call ^^ n) start"
  have calls: "served_by (send_message ws_silent_env ((silent_call ^^ k) start)) = None \<and>
               attempted (send_message ws_silent_env ((silent_call ^^ k) start)) =
                 [DIRECT_API, WEBSOCKET_API, BROWSER_AUTOMATION]" if "k < n" for k
  proof -
    have "timed_out (int n) (int k) ((silent_call ^^ k) start)"
      unfolding start_def using that by (intro timed_out_iterate) simp
    from timed_out_step [OF this] that show ?thesis by simp
  qed
  have s: "timed_out (int n) (int n) stuck"
    unfolding stuck_def start_def by (rule timed_out_iterate) simp
  then have c: "direct_api_failures stuck = int n" "websocket_failures stuck = 0"
    "browser_failures stuck = int n"
    by (simp_all add: timed_out_def)
  have "determine_method stuck = (WEBSOCKET_API, stuck) \<and>
         DIRECT_API \<notin> set (attempted (send_message env stuck))"
    using timed_out_selects_websocket [OF s] n by simp
  with calls c show "let start = with_thresholds (int n) (HybridRouter_init uid tm AUTO);
        stuck = (silent_call ^^ n) start
    in (\<forall>k<n. served_by (send_message ws_silent_env ((silent_call ^^ k) start)) = None \<and>
               attempted (send_message ws_silent_env ((silent_call ^^ k) start)) =
                 [DIRECT_API, WEBSOCKET_API, BROWSER_AUTOMATION]) \<and>
       direct_api_failures stuck = int n \<and> websocket_failures stuck = 0 \<and>
       browser_failures stuck = int n \<and>
       determine_method stuck = (WEBSOCKET_API, stuck) \<and>
       DIRECT_API \<notin> set (attempted (send_message env stuck))"
    unfolding Let_def stuck_def start_def by blast
qed

theorem uncounted_failures_prevent_reset_witness:
  "served_by (send_message ws_silent_env
      (with_thresholds 3 (HybridRouter_init ''42'' (empty_store :: nat TokenManager) AUTO))) = None \<and>
   direct_api_failures stuck_router = 3 \<and> websocket_failures stuck_router = 0 \<and>
   browser_failures stuck_router = 3 \<and>
   max_direct_api_failures stuck_router = 3 \<and> max_websocket_failures stuck_router = 3 \<and>
   max_browser_failures stuck_router = 3 \<and>
   determine_method stuck_router = (WEBSOCKET_API, stuck_router) \<and>
   served_by (send_message ws_silent_env stuck_router) = None \<and>
   attempted (send_message ws_silent_env stuck_router) = [WEBSOCKET_API, BROWSER_AUTOMATION]"
  using uncounted_failures_prevent_reset [where n = 3 and uid = "''42''"
      and tm = "empty_store :: nat TokenManager" and env = ws_silent_env]
  by (simp add: stuck_router_def eval_nat_numeral silent_call_def with_thresholds_def
      ws_silent_env_def failing_env_def router_eval empty_store_def)

text \<open>No call changes the pinned method.\<close>

lemma method_determine: "method' (snd (determine_method r)) = method' r"
  by (simp add: determine_method_def)

lemma method_direct_block: "method' (snd (direct_block env r)) = method' r"
  by (auto simp: direct_block_def init_direct_api_def try_direct_def Let_def
      split: prod.splits option.splits outcome.splits bool.splits if_splits)

lemma method_websocket_block: "method' (snd (websocket_block env r)) = method' r"
  by (auto simp: websocket_block_def init_websocket_api_def try_websocket_def Let_def
      split: prod.splits option.splits outcome.splits bool.splits if_splits)

lemma method_browser_block: "method' (snd (browser_block env r)) = method' r"
  by (auto simp: browser_block_def init_browser_def store_auth_def Let_def
      split: prod.splits option.splits outcome.splits bool.splits if_splits)

lemma method_from_browser: "method' (router (from_browser m tr env r)) = method' r"
  using method_browser_block [of env r]
  by (auto simp: from_browser_def split: prod.splits outcome.splits)

lemma method_from_websocket: "method' (router (from_websocket m tr env r)) = method' r"
  using method_websocket_block [of env r]
  by (auto simp: from_websocket_def method_from_browser split: prod.splits option.splits)

lemma method_from_method: "method' (router (from_method m env r)) = method' r"
  using method_direct_block [of env r]
  by (auto simp: from_method_def method_from_websocket split: prod.splits option.splits)

lemma method_send_message: "method' (router (send_message env r)) = method' r"
  using method_determine [of r]
  by (auto simp: send_message_def method_from_method split: prod.splits)

lemma method_run_session: "method' (run_session ss r) = method' r"
  by (induction ss r rule: run_session.induct) (simp_all add: method_send_message close_def)

text \<open>
  The success counter grows by one with every call that the direct or the WebSocket
  strategy answers, and with no other.
\<close>

lemma succ_from_browser:
  "successful_api_calls (router (from_browser m tr env r)) =
     successful_api_calls r + socket_answer (served_by (from_browser m tr env r))"
  using succ_init_browser [of env r]
  by (auto simp: from_browser_def socket_answer_def browser_block_def Let_def store_auth_def
      split: prod.splits outcome.splits option.splits if_splits)

lemma succ_from_websocket:
  "successful_api_calls (router (from_websocket m tr env r)) =
     successful_api_calls r + socket_answer (served_by (from_websocket m tr env r))"
proof (cases "m = WEBSOCKET_API")
  case False
  then show ?thesis using succ_from_browser [of m tr env r] by (simp add: from_websocket_def)
next
  case True
  obtain resp r1 where w: "websocket_block env r = (resp, r1)"
    by (cases "websocket_block env r")
  show ?thesis
  proof (cases resp)
    case (Some t)
    then show ?thesis using True w websocket_block_cases(1) [of env r t r1]
      by (simp add: from_websocket_def socket_answer_def)
  next
    case None
    then show ?thesis
      using True w websocket_block_cases(2) [of env r r1]
        succ_from_browser [of BROWSER_AUTOMATION "tr @ [WEBSOCKET_API]" env r1]
      by (simp add: from_websocket_def)
  qed
qed

lemma succ_from_method:
  "successful_api_calls (router (from_method m env r)) =
     successful_api_calls r + socket_answer (served_by (from_method m env r))"
proof (cases "m = DIRECT_API")
  case False
  then show ?thesis using succ_from_websocket [of m "[]" env r] by (simp add: from_method_def)
next
  case True
  obtain resp r1 where w: "direct_block env r = (resp, r1)"
    by (cases "direct_block env r")
  show ?thesis
  proof (cases resp)
    case (Some t)
    then show ?thesis using True w direct_block_cases(1) [of env r t r1]
      by (simp add: from_method_def socket_answer_def)
  next
    case None
    then show ?thesis
      using True w direct_block_cases(2) [of env r r1]
        succ_from_websocket [of WEBSOCKET_API "[DIRECT_API]" env r1]
      by (simp add: from_method_def)
  qed
qed

lemma succ_send_message:
  "successful_api_calls (router (send_message env r)) =
     successful_api_calls r + socket_answer (served_by (send_message env r))"
proof -
  obtain m r1 where d: "determine_method r = (m, r1)" by (cases "determine_method r")
  let ?r2 = "r1\<lparr>last_method_used := Some m, total_api_calls := total_api_calls r1 + 1\<rparr>"
  have "send_message env r = from_method m env ?r2"
    by (simp add: send_message_def d)
  moreover have "successful_api_calls ?r2 = successful_api_calls r"
    using succ_determine [of r] d by simp
  ultimately show ?thesis using succ_from_method [of m env ?r2] by simp
qed

lemma succ_run_session:
  "successful_api_calls r \<le> successful_api_calls (run_session ss r) \<and>
   (DIRECT_API \<in> set (answered ss r) \<or> WEBSOCKET_API \<in> set (answered ss r) \<longrightarrow>
      successful_api_calls r < successful_api_calls (run_session ss r))"
proof (induction ss r rule: run_session.induct)
  case (1 r)
  then show ?case by simp
next
  case (2 env ss r)
  have "0 \<le> socket_answer (served_by (send_message env r))"
    by (simp add: socket_answer_def)
  moreover have "served_by (send_message env r) = Some DIRECT_API \<or>
      served_by (send_message env r) = Some WEBSOCKET_API \<Longrightarrow>
      socket_answer (served_by (send_message env r)) = 1"
    by (simp add: socket_answer_def)
  ultimately show ?case
    using 2 succ_send_message [of env r]
    by (auto split: option.splits)
next
  case (3 ss r)
  then show ?case by (simp add: close_def)
qed

text \<open>
  Claim C4, as amended. In a session of a router that is not pinned: when the direct
  strategy has answered a call, its client exists and its failure counter is below its
  threshold, \<open>_determine_method\<close> returns \<open>DIRECT_API\<close>; when the WebSocket strategy
  has answered a call, its client exists, its failure counter is below its threshold, and
  the direct client does not exist or the direct counter has reached its threshold, it
  returns \<open>WEBSOCKET_API\<close>; and browser automation is returned exactly when both
  socket counters have reached their thresholds and the browser counter has not, whatever
  the browser has answered before.
\<close>

theorem sticky_after_own_success:
  assumes "method' r0 = AUTO" and "0 \<le> successful_api_calls r0"
  shows "let r = run_session ss r0 in
    (DIRECT_API \<in> set (answered ss r0) \<and> direct_client r \<and>
     direct_api_failures r < max_direct_api_failures r \<longrightarrow>
       determine_method r = (DIRECT_API, r)) \<and>
    (WEBSOCKET_API \<in> set (answered ss r0) \<and>
     \<not> (direct_client r \<and> direct_api_failures r < max_direct_api_failures r) \<and>
     ws_client r \<and> websocket_failures r < max_websocket_failures r \<longrightarrow>
       determine_method r = (WEBSOCKET_API, r)) \<and>
    (fst (determine_method r) = BROWSER_AUTOMATION \<longleftrightarrow>
       max_direct_api_failures r \<le> direct_api_failures r \<and>
       max_websocket_failures r \<le> websocket_failures r \<and>
       browser_failures r < max_browser_failures r)"
proof -
  define r where "r = run_session ss r0"
  have m: "method' r = AUTO"
    unfolding r_def using assms(1) by (simp add: method_run_session)
  have s: "0 < successful_api_calls r"
    if "DIRECT_API \<in> set (answered ss r0) \<or> WEBSOCKET_API \<in> set (answered ss r0)"
    unfolding r_def using succ_run_session [of r0 ss] assms(2) that by linarith
  have 1: "determine_method r = (DIRECT_API, r)"
    if "DIRECT_API \<in> set (answered ss r0)" "direct_client r"
      "direct_api_failures r < max_direct_api_failures r"
    using m s that by (simp add: determine_method_def)
  have 2: "determine_method r = (WEBSOCKET_API, r)"
    if "WEBSOCKET_API \<in> set (answered ss r0)"
      "\<not> (direct_client r \<and> direct_api_failures r < max_direct_api_failures r)"
      "ws_client r" "websocket_failures r < max_websocket_failures r"
    using m s that by (auto simp: determine_method_def)
  have 3: "fst (determine_method r) = BROWSER_AUTOMATION \<longleftrightarrow>
       max_direct_api_failures r \<le> direct_api_failures r \<and>
       max_websocket_failures r \<le> websocket_failures r \<and>
       browser_failures r < max_browser_failures r"
    using m by (auto simp: determine_method_def)
  show ?thesis
    unfolding Let_def r_def [symmetric] using 1 2 3 by blast
qed

theorem sticky_after_own_success_witness:
  "answered [Call direct_ok_env] fresh_router = [DIRECT_API] \<and>
   fst (determine_method (run_session [Call direct_ok_env] fresh_router)) = DIRECT_API \<and>
   answered [Call ws_ok_env] fresh_router = [WEBSOCKET_API] \<and>
   direct_api_failures (run_session [Call ws_ok_env] fresh_router) = 1 \<and>
   fst (determine_method (run_session [Call ws_ok_env] fresh_router)) = WEBSOCKET_API \<and>
   direct_api_failures
     (run_session [Call browser_ok_env, Call browser_ok_env, Call browser_ok_env] fresh_router) = 3 \<and>
   websocket_failures
     (run_session [Call browser_ok_env, Call browser_ok_env, Call browser_ok_env] fresh_router) = 3 \<and>
   fst (determine_method
     (run_session [Call browser_ok_env, Call browser_ok_env, Call browser_ok_env] fresh_router))
     = BROWSER_AUTOMATION"
  using sticky_after_own_success [where ?r0.0 = fresh_router and ss = "[Call direct_ok_env]"]
    sticky_after_own_success [where ?r0.0 = fresh_router and ss = "[Call ws_ok_env]"]
    sticky_after_own_success [where ?r0.0 = fresh_router
      and ss = "[Call browser_ok_env, Call browser_ok_env, Call browser_ok_env]"]
  by (simp add: direct_ok_env_def ws_ok_env_def browser_ok_env_def scenario_eval router_eval)

text \<open>
  Claim C4 as stated fails. After a call answered by browser automation, whose counter is
  below its threshold, the next selection is \<open>DIRECT_API\<close>. And after a call answered by
  the WebSocket strategy and a \<open>close\<close>, which drops the client objects, the next
  selection is \<open>DIRECT_API\<close> too, the WebSocket counter being below its threshold.
\<close>

theorem stickiness_counterexample:
  "answered [Call browser_ok_env] fresh_router = [BROWSER_AUTOMATION] \<and>
   browser_failures (run_session [Call browser_ok_env] fresh_router)
     < max_browser_failures (run_session [Call browser_ok_env] fresh_router) \<and>
   fst (determine_method (run_session [Call browser_ok_env] fresh_router)) = DIRECT_API \<and>
   answered [Call ws_ok_env, Close] fresh_router = [WEBSOCKET_API] \<and>
   websocket_failures (run_session [Call ws_ok_env, Close] fresh_router)
     < max_websocket_failures (run_session [Call ws_ok_env, Close] fresh_router) \<and>
   fst (determine_method (run_session [Call ws_ok_env, Close] fresh_router)) = DIRECT_API"
  by (simp add: ws_ok_env_def browser_ok_env_def close_def scenario_eval router_eval)

text \<open>
  The success counter is shared by the two socket strategies, so the success of one can
  make the other sticky, against the comments on the two branches of
  \<open>_determine_method\<close>: in a session where only the direct strategy answered, the
  selection after a \<open>close\<close> and a call without answer is \<open>WEBSOCKET_API\<close>, the direct
  counter being below its threshold.
\<close>

lemma shared_counter_crosses_strategies:
  "answered [Call direct_ok_env, Close, Call ws_silent_env] fresh_router = [DIRECT_API] \<and>
   direct_api_failures (run_session [Call direct_ok_env, Close, Call ws_silent_env] fresh_router) = 1 \<and>
   max_direct_api_failures (run_session [Call direct_ok_env, Close, Call ws_silent_env] fresh_router) = 3 \<and>
   fst (determine_method (run_session [Call direct_ok_env, Close, Call ws_silent_env] fresh_router))
     = WEBSOCKET_API"
  by (simp add: direct_ok_env_def ws_silent_env_def close_def scenario_eval router_eval)

section \<open>Properties of the streaming callbacks\<close>






lemma apply_params_keeps:
  "calls (apply_params p c) = calls c \<and> handlers (apply_params p c) = handlers c \<and>
   responses (apply_params p c) = responses c"
  by (simp add: apply_params_def Let_def split: option.splits)

lemma apply_connections_keeps:
  "calls (apply_connections ps c) = calls c \<and> handlers (apply_connections ps c) = handlers c \<and>
   responses (apply_connections ps c) = responses c"
  by (induction ps c rule: apply_connections.induct) (simp_all add: apply_params_keeps)

lemma connect_keeps:
  "calls (snd (connect ok c)) = calls c \<and> handlers (snd (connect ok c)) = handlers c \<and>
   responses (snd (connect ok c)) = responses c"
  by (simp add: connect_def extract_connection_params_def Let_def apply_params_keeps
      apply_connections_keeps split: option.splits prod.splits socket_outcome.splits)

lemma ws_send_message_registers:
  assumes "ws_send_message now h sk sd text message_id upd compl cz = (sent, c)"
    and "mid = (case message_id of None \<Rightarrow> generate_message_id now h text | Some m \<Rightarrow> m)"
  shows "calls c = calls cz \<and>
         responses c = (responses cz)(mid \<mapsto>
            \<lparr>content = [], complete = False, created_at = now, updated_at = now\<rparr>) \<and>
         handlers c = (if upd \<or> compl
                       then (handlers cz)(mid \<mapsto> \<lparr>on_update = upd, on_complete = compl\<rparr>)
                       else handlers cz)"
proof -
  define c1 where "c1 = cz\<lparr>responses := (responses cz)(mid \<mapsto>
                 \<lparr>content = [], complete = False, created_at = now, updated_at = now\<rparr>)\<rparr>"
  define c2 where "c2 = (if upd \<or> compl
                then c1\<lparr>handlers := (handlers c1)(mid \<mapsto> \<lparr>on_update = upd, on_complete = compl\<rparr>)\<rparr>
                else c1)"
  have "snd (ws_send_message now h sk sd text message_id upd compl cz) =
          (if state c2 \<noteq> CONNECTED then snd (connect sk c2) else c2)"
    unfolding c2_def c1_def assms(2)
    by (simp add: ws_send_message_def Let_def split: prod.splits)
  then have c: "c = (if state c2 \<noteq> CONNECTED then snd (connect sk c2) else c2)"
    using assms(1) by simp
  have "calls c = calls c2 \<and> responses c = responses c2 \<and> handlers c = handlers c2"
    unfolding c using connect_keeps [of sk c2] by simp
  then show ?thesis by (simp add: c2_def c1_def)
qed













section \<open>Properties of the pending requests\<close>

lemma dom_process_message: "dom (responses (process_message now m c)) = dom (responses c)"
  by (cases m) (auto simp: Let_def split: option.splits)

lemma dom_process_messages: "dom (responses (process_messages ms c)) = dom (responses c)"
  by (induction ms c rule: process_messages.induct) (simp_all add: dom_process_message)

lemma responses_reconnect: "responses (snd (reconnect ok c)) = responses c"
  by (simp add: reconnect_def Let_def connect_keeps)

lemma dom_during_sleep: "dom (responses (during_sleep frames ending c)) = dom (responses c)"
  by (auto simp: during_sleep_def listener_def Let_def responses_reconnect dom_process_messages
      split: option.splits stream_end.splits)

lemma dom_wait_loop:
  "dom (responses (snd (wait_loop mid timeout start polls c))) = dom (responses c)"
proof (induction polls arbitrary: c)
  case Nil
  then show ?case by (simp split: option.splits)
next
  case (Cons p polls)
  obtain now frames ending where p: "p = (now, frames, ending)" by (cases p)
  show ?case
    using Cons.IH [of "during_sleep frames ending c"]
    by (simp add: p dom_during_sleep split: option.splits)
qed

text \<open>
  Claim C5, on the code. \<open>ReplitWebSocketClient.wait_for_response\<close> never removes the
  entry of \<open>responses\<close> it waits on: a registered id is still registered when the call
  returns, on the timeout path like on every other. The direct client does remove its
  registration (\<open>d_wait_removes_registration\<close>).
\<close>

theorem ws_wait_keeps_registration:
  assumes "mid \<in> dom (responses c)"
  shows "mid \<in> dom (responses (snd (ws_wait_for_response mid timeout start polls c)))"
  using assms by (simp add: ws_wait_for_response_def dom_wait_loop del: wait_loop.simps)

theorem ws_wait_keeps_registration_witness:
  "fst (ws_wait_for_response ''m1'' 60000 1000 [(1100, [], None), (61001, [], None)]
          (ws_registered False False)) = Returned None \<and>
   ''m1'' \<in> dom (responses (snd (ws_wait_for_response ''m1'' 60000 1000
          [(1100, [], None), (61001, [], None)] (ws_registered False False))))"
  using ws_wait_keeps_registration [where mid = "''m1''" and c = "ws_registered False False"
      and timeout = 60000 and start = 1000 and polls = "[(1100, [], None), (61001, [], None)]"]
  by (simp add: client_eval ws_wait_for_response_def during_sleep_def)

lemma d_wait_removes_registration:
  "mid \<notin> dom (message_callbacks (snd (d_wait_for_response mid frames c)))"
  by (auto simp: d_wait_for_response_def Let_def split: option.splits)

lemma state_process_message:
  "state (process_message now m c) = state c \<and> ws (process_message now m c) = ws c"
  by (cases m) (auto simp: Let_def split: option.splits)

lemma state_process_messages:
  "state (process_messages ms c) = state c \<and> ws (process_messages ms c) = ws c"
  by (induction ms c rule: process_messages.induct) (simp_all add: state_process_message)

lemma ws_send_message_connected:
  assumes "state c = CONNECTED" and "ws c"
  shows "fst (ws_send_message now h sk True msg None u k c) = Some (generate_message_id now h msg) \<and>
         state (snd (ws_send_message now h sk True msg None u k c)) = CONNECTED \<and>
         ws (snd (ws_send_message now h sk True msg None u k c))"
  using assms by (cases "u \<or> k") (simp_all add: ws_send_message_def Let_def)

text \<open>
  Claim C9, on the code. On a connected WebSocket client, two \<open>send_message\<close> calls made
  at the same clock reading with texts of the same hash modulo 10000 (the same text, for
  one) generate the same message id, and the second call replaces the pending entry of the
  first by an empty one.
\<close>

theorem same_millisecond_same_id:
  assumes "state c = CONNECTED" and "ws c"
    and "ws_send_message now h sk True msg None u1 k1 c = (id1, c1)"
    and "ws_send_message now h sk' True msg' None u2 k2 (process_messages frames c1) = (id2, c2)"
    and "h msg mod 10000 = h msg' mod 10000"
  shows "id1 = Some (generate_message_id now h msg) \<and> id2 = id1 \<and>
         responses c2 (generate_message_id now h msg) =
           Some \<lparr>content = [], complete = False, created_at = now, updated_at = now\<rparr>"
proof -
  have 1: "id1 = Some (generate_message_id now h msg) \<and> state c1 = CONNECTED \<and> ws c1"
    using ws_send_message_connected [OF assms(1,2), of now h sk msg u1 k1] assms(3) by simp
  then have "state (process_messages frames c1) = CONNECTED \<and> ws (process_messages frames c1)"
    by (simp add: state_process_messages)
  then have 2: "id2 = Some (generate_message_id now h msg')"
    using ws_send_message_connected [of "process_messages frames c1" now h sk' msg' u2 k2] assms(4)
    by simp
  have g: "generate_message_id now h msg' = generate_message_id now h msg"
    using assms(5) by (simp add: generate_message_id_def)
  show ?thesis
    using 1 2 g ws_send_message_registers [OF assms(4) refl] by simp
qed

lemma generate_message_id_example: "generate_message_id 1000 (\<lambda>_. 7) ''hi'' = ''msg_1000_7''"
  by (simp add: generate_message_id_def str_int_def digit_char_def)

theorem same_millisecond_same_id_witness:
  "fst (ws_send_message 1000 (\<lambda>_. 7) SocketOK True ''hi'' None True False ws_connected)
     = Some ''msg_1000_7'' \<and>
   responses (process_messages [(1000, AgentResponse ''msg_1000_7'' ''partial'')]
       (snd (ws_send_message 1000 (\<lambda>_. 7) SocketOK True ''hi'' None True False ws_connected)))
     ''msg_1000_7''
     = Some \<lparr>content = ''partial'', complete = False, created_at = 1000, updated_at = 1000\<rparr> \<and>
   fst (ws_send_message 1000 (\<lambda>_. 7) SocketOK True ''hi'' None True False
     (process_messages [(1000, AgentResponse ''msg_1000_7'' ''partial'')]
       (snd (ws_send_message 1000 (\<lambda>_. 7) SocketOK True ''hi'' None True False ws_connected))))
     = Some ''msg_1000_7'' \<and>
   responses (snd (ws_send_message 1000 (\<lambda>_. 7) SocketOK True ''hi'' None True False
     (process_messages [(1000, AgentResponse ''msg_1000_7'' ''partial'')]
       (snd (ws_send_message 1000 (\<lambda>_. 7) SocketOK True ''hi'' None True False ws_connected)))))
     ''msg_1000_7''
     = Some \<lparr>content = [], complete = False, created_at = 1000, updated_at = 1000\<rparr>"
  using same_millisecond_same_id [where c = ws_connected and now = 1000 and h = "\<lambda>_. 7"
      and sk = SocketOK and sk' = SocketOK and msg = "''hi''" and msg' = "''hi''"
      and ?u1.0 = True and ?k1.0 = False and ?u2.0 = True and ?k2.0 = False
      and frames = "[(1000, AgentResponse ''msg_1000_7'' ''partial'')]", OF _ _ surjective_pairing surjective_pairing]
  by (simp add: ws_connected_def client_eval generate_message_id_example)

end
